theory Spec2Isabelle
  imports Main "HOL-Library.Sublist"
begin

section \<open>The lifecycle orchestrator of server.js\<close>

text \<open>
  server.js starts the service (\<open>startServer\<close>, lines 58-123) and stops it
  (\<open>gracefulShutdown\<close>, lines 25-53). Both are \<open>async\<close> functions: they run
  synchronously up to an \<open>await\<close>, are suspended there, and are resumed by the event
  loop when the awaited operation settles. Between two suspension points nothing else
  runs; at a suspension point any other event (a signal, a fault, a listener event, the
  settlement of another pending operation) may be handled first.

  The model is a process state and a deterministic \<open>step\<close> function that handles one
  event of the event loop. Every observable action of the program (a call into a
  collaborator, a log line, \<open>process.exit\<close>) is appended to a trace, and so is the
  end of the process when the runtime ends it because no handler is registered.
  The collaborators (config/logger, config/db, config/mail, the Express application,
  the Node runtime) are not part of server.js; what they return is a parameter
  (\<open>env\<close>) or arrives as an event.
\<close>

subsection \<open>Values\<close>

datatype signal = SIGINT | SIGTERM | SIGQUIT

text \<open>The string that line 96 passes to \<open>gracefulShutdown\<close>.\<close>

fun signal_name :: "signal \<Rightarrow> string" where
  "signal_name SIGINT = ''SIGINT''"
| "signal_name SIGTERM = ''SIGTERM''"
| "signal_name SIGQUIT = ''SIGQUIT''"

text \<open>A JavaScript error object: the fields the program reads.\<close>

datatype error = Error (err_message: string) (err_stack: string) (err_code: string)

text \<open>The reason of an unhandled rejection is any value; line 106 reads its optional fields.\<close>

datatype reason = ReasonError error | ReasonOther string

type_synonym sink = nat     \<comment> \<open>a logger object returned by \<open>getLogger()\<close>\<close>
type_synonym handle = nat   \<comment> \<open>an http server returned by \<open>app.listen\<close>\<close>
type_synonym conn = nat     \<comment> \<open>a Sequelize instance returned by \<open>getSequelize()\<close>\<close>

text \<open>
  The log lines of the program. The texts are fixed templates (in Chinese in the source);
  each constructor stands for one template and carries the values interpolated into it.
\<close>

datatype msg =
    ShutdownBegin string       \<comment> \<open>line 26\<close>
  | HttpClosed                 \<comment> \<open>line 37\<close>
  | DbClosed                   \<comment> \<open>line 44\<close>
  | ShutdownDone               \<comment> \<open>line 47\<close>
  | ShutdownFailed error       \<comment> \<open>line 50, message and stack\<close>
  | DbInitBegin                \<comment> \<open>line 67\<close>
  | DbInitDone                 \<comment> \<open>line 70\<close>
  | HttpStarting string        \<comment> \<open>line 78\<close>
  | HttpStarted string         \<comment> \<open>line 80, the reachable address\<close>
  | SwaggerAt string           \<comment> \<open>line 81\<close>
  | HttpStartFailed error      \<comment> \<open>line 86, message and stack\<close>
  | PortInUse string           \<comment> \<open>line 89\<close>
  | UncaughtFault error        \<comment> \<open>line 101, message and stack\<close>
  | UnobservedRejection reason \<comment> \<open>lines 106-109\<close>
  | StartFailed error          \<comment> \<open>line 115, message and stack\<close>

datatype effect =
    InitLogger                 \<comment> \<open>\<open>loggerModule.initLogger()\<close>, line 63\<close>
  | GetLogger                  \<comment> \<open>\<open>loggerModule.getLogger()\<close>, line 64\<close>
  | InitDB                     \<comment> \<open>\<open>initDB()\<close>, line 68\<close>
  | GetSequelize               \<comment> \<open>\<open>getSequelize()\<close>, lines 41 and 69\<close>
  | InitMail                   \<comment> \<open>\<open>initMailTransporter()\<close>, line 73\<close>
  | Listen string              \<comment> \<open>\<open>app.listen(PORT, ...)\<close>, line 79\<close>
  | ServerClose handle         \<comment> \<open>\<open>serverInstance.close(...)\<close>, line 32\<close>
  | SequelizeClose conn        \<comment> \<open>\<open>sequelize.close()\<close>, line 43\<close>
  | SinkInfo sink msg          \<comment> \<open>\<open>info\<close> of a logger object\<close>
  | SinkError sink msg         \<comment> \<open>\<open>error\<close> of a logger object\<close>
  | ConsoleError msg           \<comment> \<open>\<open>console.error\<close>, line 119\<close>
  | Exit nat                   \<comment> \<open>\<open>process.exit(code)\<close>\<close>
  | Killed signal              \<comment> \<open>the runtime ends the process: a signal nobody handles\<close>
  | Crashed                    \<comment> \<open>the runtime ends the process: a fault nobody handles\<close>

text \<open>The components the start sequence brings up, and the effect that starts each.\<close>

datatype component = Logger | Persistence | Messaging | ListenerBind

fun init_of :: "effect \<Rightarrow> component option" where
  "init_of InitLogger = Some Logger"
| "init_of InitDB = Some Persistence"
| "init_of InitMail = Some Messaging"
| "init_of (Listen port) = Some ListenerBind"
| "init_of e = None"

subsection \<open>Process state\<close>

text \<open>
  Where an activation of an async function is suspended. The local \<open>const logger\<close> of
  \<open>startServer\<close> (line 64) lives in the activation; it is not null once line 67 has run.
\<close>

datatype task =
    AwaitInitLogger            \<comment> \<open>\<open>startServer\<close> at line 63\<close>
  | AwaitInitDB sink           \<comment> \<open>\<open>startServer\<close> at line 68\<close>
  | AwaitInitMail sink         \<comment> \<open>\<open>startServer\<close> at line 73\<close>
  | AwaitServerClose           \<comment> \<open>\<open>gracefulShutdown\<close> at line 31\<close>
  | AwaitSequelizeClose        \<comment> \<open>\<open>gracefulShutdown\<close> at line 43\<close>
  | Done                       \<comment> \<open>not suspended\<close>

text \<open>The initializer whose promise an activation is waiting for, if any.\<close>

fun awaited :: "task \<Rightarrow> component option" where
  "awaited AwaitInitLogger = Some Logger"
| "awaited (AwaitInitDB lg) = Some Persistence"
| "awaited (AwaitInitMail lg) = Some Messaging"
| "awaited t = None"

text \<open>
  The state of the process. The last three fields are not variables of the program:
  \<open>trace\<close> is what the program did, \<open>settledInits\<close> is kept by the event loop and
  lists the initializers whose promise has settled, and \<open>exited\<close> is the exit status
  once the process has ended.
\<close>

record proc =
  serverInstance :: "handle option"   \<comment> \<open>line 19\<close>
  logger :: "sink option"             \<comment> \<open>the module-level variable of line 20\<close>
  tasks :: "task list"                \<comment> \<open>the activations, in order of invocation\<close>
  listeners :: "sink list"            \<comment> \<open>per server handle: the logger its callbacks close over\<close>
  sigHandlers :: "signal list"        \<comment> \<open>registrations of line 96\<close>
  uncaughtHandlers :: "sink list"     \<comment> \<open>registrations of line 100, with the captured logger\<close>
  rejectionHandlers :: "sink list"    \<comment> \<open>registrations of line 105, with the captured logger\<close>
  trace :: "effect list"
  settledInits :: "component list"    \<comment> \<open>initializers that have settled, in order\<close>
  exited :: "nat option"              \<comment> \<open>the exit status once the process has ended\<close>

text \<open>What the collaborators return to synchronous calls.\<close>

record env =
  env_PORT :: "string option"         \<comment> \<open>\<open>process.env.PORT\<close>\<close>
  getLogger_ret :: "sink option"      \<comment> \<open>result of \<open>getLogger()\<close>; \<open>None\<close> is null\<close>
  getSequelize_ret :: "conn option"   \<comment> \<open>result of \<open>getSequelize()\<close>; \<open>None\<close> is null\<close>
  listen_throws :: "error option"     \<comment> \<open>\<open>app.listen\<close> throws synchronously\<close>
  nullTypeError :: error              \<comment> \<open>the TypeError of a property read on null\<close>

text \<open>Line 18: \<open>process.env.PORT || 3000\<close>, as it prints in a template string.\<close>

definition PORT :: "env \<Rightarrow> string" where
  "PORT env = (case env_PORT env of None \<Rightarrow> ''3000'' | Some s \<Rightarrow> if s = [] then ''3000'' else s)"

text \<open>The state when the module has been loaded and line 126 has not run yet.\<close>

definition init_proc :: proc where
  "init_proc = \<lparr> serverInstance = None, logger = None, tasks = [], listeners = [],
     sigHandlers = [], uncaughtHandlers = [], rejectionHandlers = [], trace = [],
     settledInits = [], exited = None \<rparr>"

definition emit :: "effect \<Rightarrow> proc \<Rightarrow> proc" where
  "emit e p = p\<lparr>trace := trace p @ [e]\<rparr>"

definition process_exit :: "nat \<Rightarrow> proc \<Rightarrow> proc" where
  "process_exit c p = (emit (Exit c) p)\<lparr>exited := Some c\<rparr>"

text \<open>\<open>lg?.info(m)\<close> and \<open>lg?.error(m)\<close>: nothing happens when \<open>lg\<close> is null.\<close>

definition opt_info :: "sink option \<Rightarrow> msg \<Rightarrow> proc \<Rightarrow> proc" where
  "opt_info lg m p = (case lg of None \<Rightarrow> p | Some s \<Rightarrow> emit (SinkInfo s m) p)"

definition opt_error :: "sink option \<Rightarrow> msg \<Rightarrow> proc \<Rightarrow> proc" where
  "opt_error lg m p = (case lg of None \<Rightarrow> p | Some s \<Rightarrow> emit (SinkError s m) p)"

definition set_task :: "nat \<Rightarrow> task \<Rightarrow> proc \<Rightarrow> proc" where
  "set_task i t p = p\<lparr>tasks := (tasks p)[i := t]\<rparr>"

subsection \<open>gracefulShutdown, lines 25-53\<close>

text \<open>Lines 49-52: the catch block. \<open>logger\<close> is the module-level variable.\<close>

definition gracefulShutdown_catch :: "error \<Rightarrow> proc \<Rightarrow> proc" where
  "gracefulShutdown_catch e p = process_exit 1 (opt_error (logger p) (ShutdownFailed e) p)"

text \<open>Lines 47-48.\<close>

definition gracefulShutdown_finish :: "proc \<Rightarrow> proc" where
  "gracefulShutdown_finish p = process_exit 0 (opt_info (logger p) ShutdownDone p)"

text \<open>Lines 41-48, up to the suspension at line 43 when there is a connection.\<close>

definition gracefulShutdown_db :: "env \<Rightarrow> nat \<Rightarrow> proc \<Rightarrow> proc" where
  "gracefulShutdown_db env i p =
     (let p1 = emit GetSequelize p in
      case getSequelize_ret env of
        Some c \<Rightarrow> set_task i AwaitSequelizeClose (emit (SequelizeClose c) p1)
      | None \<Rightarrow> gracefulShutdown_finish p1)"

text \<open>
  Lines 25-38: a new activation. With a server instance it calls \<open>close\<close> and is suspended
  on the promise of line 31; without one it goes on to the database step at once.
  A process that has exited runs nothing.
\<close>

definition gracefulShutdown :: "env \<Rightarrow> string \<Rightarrow> proc \<Rightarrow> proc" where
  "gracefulShutdown env sig p =
     (if exited p \<noteq> None then p else
      let i = length (tasks p);
          p1 = opt_info (logger p) (ShutdownBegin sig) (p\<lparr>tasks := tasks p @ [Done]\<rparr>) in
      case serverInstance p1 of
        Some h \<Rightarrow> set_task i AwaitServerClose (emit (ServerClose h) p1)
      | None \<Rightarrow> gracefulShutdown_db env i p1)"

text \<open>Lines 32-37 and on: the callback of \<open>close\<close> ran, with an error or without.\<close>

definition gracefulShutdown_closed :: "env \<Rightarrow> nat \<Rightarrow> error option \<Rightarrow> proc \<Rightarrow> proc" where
  "gracefulShutdown_closed env i r p =
     (case r of
        Some e \<Rightarrow> gracefulShutdown_catch e p
      | None \<Rightarrow> gracefulShutdown_db env i (opt_info (logger p) HttpClosed p))"

text \<open>Lines 43-48: \<open>sequelize.close()\<close> settled.\<close>

definition gracefulShutdown_db_closed :: "error option \<Rightarrow> proc \<Rightarrow> proc" where
  "gracefulShutdown_db_closed r p =
     (case r of
        Some e \<Rightarrow> gracefulShutdown_catch e p
      | None \<Rightarrow> gracefulShutdown_finish (opt_info (logger p) DbClosed p))"

subsection \<open>startServer, lines 58-123\<close>

text \<open>
  Lines 113-122: the catch block. It is outside the block that declares the local
  \<open>const logger\<close>, so \<open>logger\<close> here is the module-level variable of line 20.
\<close>

definition startServer_catch :: "error \<Rightarrow> proc \<Rightarrow> proc" where
  "startServer_catch e p =
     process_exit 1
       (case logger p of
          Some lg \<Rightarrow> emit (SinkError lg (StartFailed e)) p
        | None \<Rightarrow> emit (ConsoleError (StartFailed e)) p)"

text \<open>Lines 58-63: a new activation, suspended on \<open>initLogger()\<close>.\<close>

definition startServer :: "env \<Rightarrow> proc \<Rightarrow> proc" where
  "startServer env p =
     (if exited p \<noteq> None then p else
      emit InitLogger (p\<lparr>tasks := tasks p @ [AwaitInitLogger]\<rparr>))"

text \<open>
  Lines 64-68. \<open>logger.info\<close> on a null logger throws a TypeError, which the catch block
  receives.
\<close>

definition startServer_logger_ready :: "env \<Rightarrow> nat \<Rightarrow> proc \<Rightarrow> proc" where
  "startServer_logger_ready env i p =
     (let p1 = emit GetLogger p in
      case getLogger_ret env of
        None \<Rightarrow> startServer_catch (nullTypeError env) p1
      | Some lg \<Rightarrow> set_task i (AwaitInitDB lg) (emit InitDB (emit (SinkInfo lg DbInitBegin) p1)))"

text \<open>Lines 69-73.\<close>

definition startServer_db_ready :: "env \<Rightarrow> nat \<Rightarrow> sink \<Rightarrow> proc \<Rightarrow> proc" where
  "startServer_db_ready env i lg p =
     set_task i (AwaitInitMail lg)
       (emit InitMail (emit (SinkInfo lg DbInitDone) (emit GetSequelize p)))"

text \<open>
  Lines 78-111. \<open>app.listen\<close> creates a new server on every call; the handle is its index
  in \<open>listeners\<close>. Lines 79-92 install the listening callback and the error handler on it,
  both closing over the local logger; lines 95-111 register the signal and fault handlers.
\<close>

definition startServer_mail_ready :: "env \<Rightarrow> nat \<Rightarrow> sink \<Rightarrow> proc \<Rightarrow> proc" where
  "startServer_mail_ready env i lg p =
     (let p1 = emit (Listen (PORT env)) (emit (SinkInfo lg (HttpStarting (PORT env))) p) in
      case listen_throws env of
        Some e \<Rightarrow> startServer_catch e p1
      | None \<Rightarrow>
          p1\<lparr> serverInstance := Some (length (listeners p1)),
              listeners := listeners p1 @ [lg],
              sigHandlers := sigHandlers p1 @ [SIGINT, SIGTERM, SIGQUIT],
              uncaughtHandlers := uncaughtHandlers p1 @ [lg],
              rejectionHandlers := rejectionHandlers p1 @ [lg] \<rparr>)"

subsection \<open>Callbacks and handlers\<close>

text \<open>Lines 79-82: the listening callback.\<close>

definition on_listening :: "env \<Rightarrow> sink \<Rightarrow> proc \<Rightarrow> proc" where
  "on_listening env lg p =
     emit (SinkInfo lg (SwaggerAt (PORT env))) (emit (SinkInfo lg (HttpStarted (PORT env))) p)"

text \<open>Lines 85-92: the handler of the server's error event.\<close>

definition on_server_error :: "env \<Rightarrow> sink \<Rightarrow> error \<Rightarrow> proc \<Rightarrow> proc" where
  "on_server_error env lg e p =
     (let p1 = emit (SinkError lg (HttpStartFailed e)) p;
          p2 = (if err_code e = ''EADDRINUSE'' then emit (SinkError lg (PortInUse (PORT env))) p1
                else p1)
      in process_exit 1 p2)"

text \<open>
  Lines 100-103 and 105-111: the fault handlers. They are arrow functions inside the
  block of line 64, so \<open>logger\<close> in them is the local constant they captured.
\<close>

definition on_uncaughtException :: "env \<Rightarrow> error \<Rightarrow> sink \<Rightarrow> proc \<Rightarrow> proc" where
  "on_uncaughtException env e lg p =
     (if exited p \<noteq> None then p else
      gracefulShutdown env ''uncaughtException'' (opt_error (Some lg) (UncaughtFault e) p))"

definition on_unhandledRejection :: "env \<Rightarrow> reason \<Rightarrow> sink \<Rightarrow> proc \<Rightarrow> proc" where
  "on_unhandledRejection env r lg p =
     (if exited p \<noteq> None then p else
      gracefulShutdown env ''unhandledRejection'' (opt_error (Some lg) (UnobservedRejection r) p))"

subsection \<open>The event loop\<close>

datatype event =
    Settled nat "error option"   \<comment> \<open>the operation activation \<open>i\<close> awaits settled; \<open>Some e\<close> is a failure\<close>
  | Listening handle             \<comment> \<open>the server is bound: the callback of line 79\<close>
  | ServerError handle error     \<comment> \<open>the error event of a server\<close>
  | Signal signal
  | UncaughtException error
  | UnhandledRejection reason

text \<open>
  What the Node runtime does with an event no handler of the program is registered for:
  it ends the process. A signal kills it; the exit status is 128 plus the signal number,
  as the parent shell reports it. An uncaught exception or an unhandled rejection prints
  the fault and exits with status 1.
\<close>

fun signal_status :: "signal \<Rightarrow> nat" where
  "signal_status SIGINT = 130"
| "signal_status SIGQUIT = 131"
| "signal_status SIGTERM = 143"

definition default_signal :: "signal \<Rightarrow> proc \<Rightarrow> proc" where
  "default_signal s p = (emit (Killed s) p)\<lparr>exited := Some (signal_status s)\<rparr>"

definition default_fault :: "proc \<Rightarrow> proc" where
  "default_fault p = (emit Crashed p)\<lparr>exited := Some 1\<rparr>"

text \<open>
  The event loop notes that the promise activation \<open>t\<close> was waiting for has settled,
  when it is the promise of an initializer.
\<close>

definition settle :: "task \<Rightarrow> proc \<Rightarrow> proc" where
  "settle t p =
     (case awaited t of
        Some c \<Rightarrow> p\<lparr>settledInits := settledInits p @ [c]\<rparr>
      | None \<Rightarrow> p)"

text \<open>Resuming activation \<open>i\<close>, which was suspended at \<open>t\<close>.\<close>

fun resume :: "env \<Rightarrow> nat \<Rightarrow> error option \<Rightarrow> task \<Rightarrow> proc \<Rightarrow> proc" where
  "resume env i r AwaitInitLogger p =
     (case r of Some e \<Rightarrow> startServer_catch e p | None \<Rightarrow> startServer_logger_ready env i p)"
| "resume env i r (AwaitInitDB lg) p =
     (case r of Some e \<Rightarrow> startServer_catch e p | None \<Rightarrow> startServer_db_ready env i lg p)"
| "resume env i r (AwaitInitMail lg) p =
     (case r of Some e \<Rightarrow> startServer_catch e p | None \<Rightarrow> startServer_mail_ready env i lg p)"
| "resume env i r AwaitServerClose p = gracefulShutdown_closed env i r p"
| "resume env i r AwaitSequelizeClose p = gracefulShutdown_db_closed r p"
| "resume env i r Done p = p"

text \<open>
  One event. The settlement of a promise resumes the activation that awaits it. A
  listener event runs the callbacks of lines 79-92 of that server. A signal or a fault
  runs the handlers registered for it, in the order of registration; when none is
  registered the runtime ends the process (the program registers the two fault handlers
  together, lines 100-111). An event for an activation or a server that does not exist
  is not an event of this process. After the process has ended nothing runs.
\<close>

fun dispatch :: "env \<Rightarrow> event \<Rightarrow> proc \<Rightarrow> proc" where
  "dispatch env (Settled i r) p =
     (if i < length (tasks p)
      then resume env i r (tasks p ! i) (set_task i Done (settle (tasks p ! i) p))
      else p)"
| "dispatch env (Listening h) p =
     (if h < length (listeners p) then on_listening env (listeners p ! h) p else p)"
| "dispatch env (ServerError h e) p =
     (if h < length (listeners p) then on_server_error env (listeners p ! h) e p else p)"
| "dispatch env (Signal s) p =
     (if s \<notin> set (sigHandlers p) then default_signal s p
      else fold (\<lambda>s'. gracefulShutdown env (signal_name s'))
             (filter (\<lambda>s'. s' = s) (sigHandlers p)) p)"
| "dispatch env (UncaughtException e) p =
     (if uncaughtHandlers p = [] then default_fault p
      else fold (on_uncaughtException env e) (uncaughtHandlers p) p)"
| "dispatch env (UnhandledRejection r) p =
     (if rejectionHandlers p = [] then default_fault p
      else fold (on_unhandledRejection env r) (rejectionHandlers p) p)"

definition step :: "env \<Rightarrow> event \<Rightarrow> proc \<Rightarrow> proc" where
  "step env ev p = (if exited p \<noteq> None then p else dispatch env ev p)"

definition run :: "env \<Rightarrow> event list \<Rightarrow> proc \<Rightarrow> proc" where
  "run env evs p = fold (step env) evs p"

text \<open>Line 126: the program. \<open>startServer\<close> is called once, when the module is loaded.\<close>

definition boot :: "env \<Rightarrow> proc" where
  "boot env = startServer env init_proc"

subsection \<open>Observations on states and traces\<close>

text \<open>The initializations a trace contains, in the order they were started.\<close>

definition init_order :: "effect list \<Rightarrow> component list" where
  "init_order es = List.map_filter init_of es"

text \<open>
  The initializers that were started and have not settled yet: those the trace shows a
  call of and the event loop has seen no settlement of. The three \<open>init\<close> calls return
  promises; \<open>app.listen\<close> returns the server at once and is not among them.
\<close>

definition pending :: "proc \<Rightarrow> component list" where
  "pending p =
     filter (\<lambda>c. c \<noteq> ListenerBind \<and> c \<notin> set (settledInits p)) (init_order (trace p))"

fun is_ServerClose :: "effect \<Rightarrow> bool" where
  "is_ServerClose (ServerClose h) = True"
| "is_ServerClose e = False"

fun is_SequelizeClose :: "effect \<Rightarrow> bool" where
  "is_SequelizeClose (SequelizeClose c) = True"
| "is_SequelizeClose e = False"


text \<open>The release steps of a trace: stopping a listener and closing the connection.\<close>

definition releases :: "effect list \<Rightarrow> effect list" where
  "releases es = filter (\<lambda>e. is_ServerClose e \<or> is_SequelizeClose e) es"

text \<open>The log lines of \<open>gracefulShutdown\<close> (lines 26, 37, 44, 47, 50).\<close>

fun shutdown_msg :: "msg \<Rightarrow> bool" where
  "shutdown_msg (ShutdownBegin s) = True"
| "shutdown_msg HttpClosed = True"
| "shutdown_msg DbClosed = True"
| "shutdown_msg ShutdownDone = True"
| "shutdown_msg (ShutdownFailed e) = True"
| "shutdown_msg m = False"

text \<open>A line of \<open>gracefulShutdown\<close>, on whatever channel.\<close>

fun is_shutdown_log :: "effect \<Rightarrow> bool" where
  "is_shutdown_log (SinkInfo s m) = shutdown_msg m"
| "is_shutdown_log (SinkError s m) = shutdown_msg m"
| "is_shutdown_log (ConsoleError m) = shutdown_msg m"
| "is_shutdown_log e = False"

text \<open>
  The program has no state variable. The service counts as running once the listening
  callback has logged the reachable address (line 80).
\<close>

fun is_HttpStarted :: "effect \<Rightarrow> bool" where
  "is_HttpStarted (SinkInfo s (HttpStarted port)) = True"
| "is_HttpStarted e = False"

definition reached_Running :: "proc \<Rightarrow> bool" where
  "reached_Running p = list_ex is_HttpStarted (trace p)"

text \<open>
  What holds from the end of a successful start sequence on: the one server, its
  handlers, and only shutdown activations besides the finished start activation.
\<close>

fun shutdown_task :: "task \<Rightarrow> bool" where
  "shutdown_task AwaitServerClose = True"
| "shutdown_task AwaitSequelizeClose = True"
| "shutdown_task Done = True"
| "shutdown_task t = False"

definition started :: "sink \<Rightarrow> proc \<Rightarrow> bool" where
  "started lg p \<longleftrightarrow>
     serverInstance p = Some 0 \<and> logger p = None \<and> listeners p = [lg] \<and>
     sigHandlers p = [SIGINT, SIGTERM, SIGQUIT] \<and>
     uncaughtHandlers p = [lg] \<and> rejectionHandlers p = [lg] \<and>
     list_all shutdown_task (tasks p) \<and>
     settledInits p = [Logger, Persistence, Messaging] \<and>
     init_order (trace p) = [Logger, Persistence, Messaging, ListenerBind]"

text \<open>While the start sequence is suspended: one activation, nothing registered yet.\<close>

definition starting :: "proc \<Rightarrow> bool" where
  "starting p \<longleftrightarrow>
     serverInstance p = None \<and> logger p = None \<and> listeners p = [] \<and>
     sigHandlers p = [] \<and> uncaughtHandlers p = [] \<and> rejectionHandlers p = [] \<and>
     exited p = None \<and>
     (case tasks p of
        [t] \<Rightarrow> (case awaited t of
                 Some c \<Rightarrow>
                   settledInits p = takeWhile (\<lambda>d. d \<noteq> c) [Logger, Persistence, Messaging] \<and>
                   init_order (trace p) = settledInits p @ [c]
               | None \<Rightarrow> False)
      | ts \<Rightarrow> False)"

text \<open>
  After a start sequence that did not complete: the catch block, or the runtime on a
  signal or fault, has ended the process.
\<close>

definition stopped_early :: "proc \<Rightarrow> bool" where
  "stopped_early p \<longleftrightarrow>
     exited p \<noteq> None \<and> logger p = None \<and>
     prefix (init_order (trace p)) [Logger, Persistence, Messaging, ListenerBind] \<and>
     (pending p = [] \<or> pending p = [last (init_order (trace p))])"

definition phase :: "proc \<Rightarrow> bool" where
  "phase p \<longleftrightarrow> starting p \<or> (\<exists>lg. started lg p) \<or> stopped_early p"

text \<open>
  The lines that only the module-level variable \<open>logger\<close> can produce: those of
  \<open>gracefulShutdown\<close>, and the start failure written to a logger object (line 117).
\<close>

fun module_logger_line :: "effect \<Rightarrow> bool" where
  "module_logger_line (SinkError s (StartFailed e)) = True"
| "module_logger_line e = is_shutdown_log e"

definition quiet :: "proc \<Rightarrow> bool" where
  "quiet p \<longleftrightarrow> logger p = None \<and> \<not> list_ex module_logger_line (trace p)"

subsection \<open>A concrete run\<close>

text \<open>
  An environment in which everything is available, an error as a listener reports it
  when the port is taken, and the three settlements of a start sequence without failure.
\<close>

definition sample_env :: env where
  "sample_env = \<lparr> env_PORT = None, getLogger_ret = Some 7, getSequelize_ret = Some 9,
     listen_throws = None, nullTypeError = Error ''Cannot read properties of null'' ''at startServer'' [] \<rparr>"

definition sample_error :: error where
  "sample_error = Error ''listen EADDRINUSE: address already in use :::3000'' ''at Server.setupListenHandle'' ''EADDRINUSE''"

text \<open>The error the callback of \<open>close\<close> receives from a server that is closed already.\<close>

definition not_running :: error where
  "not_running = Error ''Server is not running.'' ''at Server.close'' ''ERR_SERVER_NOT_RUNNING''"

definition startup_ok :: "event list" where
  "startup_ok = [Settled 0 None, Settled 0 None, Settled 0 None]"

section \<open>Basic facts\<close>

lemmas prim_defs = emit_def process_exit_def opt_info_def opt_error_def set_task_def

lemmas shutdown_defs = gracefulShutdown_def gracefulShutdown_db_def gracefulShutdown_finish_def
  gracefulShutdown_catch_def gracefulShutdown_closed_def gracefulShutdown_db_closed_def

lemmas start_defs = startServer_def startServer_catch_def startServer_logger_ready_def
  startServer_db_ready_def startServer_mail_ready_def

lemma exited_step: "exited p \<noteq> None \<Longrightarrow> step env ev p = p"
  by (simp add: step_def)

lemma exited_run: "exited p \<noteq> None \<Longrightarrow> run env evs p = p"
  by (induction evs) (simp_all add: run_def step_def)

lemma run_Nil: "run env [] p = p" by (simp add: run_def)
lemma run_Cons: "run env (ev # evs) p = run env evs (step env ev p)" by (simp add: run_def)
lemma init_order_Nil: "init_order [] = []"
  by (simp add: init_order_def map_filter_def)

lemma init_order_append: "init_order (xs @ ys) = init_order xs @ init_order ys"
  by (simp add: init_order_def map_filter_def)

lemma init_order_Cons:
  "init_order (e # es) = (case init_of e of None \<Rightarrow> init_order es | Some c \<Rightarrow> c # init_order es)"
  by (simp add: init_order_def map_filter_def split: option.splits)

lemmas init_order_simps = init_order_Nil init_order_Cons init_order_append

lemma shutdown_task_awaited: "shutdown_task t \<Longrightarrow> awaited t = None"
  by (cases t) simp_all

lemma settle_none [simp]:
  "settle AwaitServerClose p = p" "settle AwaitSequelizeClose p = p" "settle Done p = p"
  by (simp_all add: settle_def)

lemma settle_fields [simp]:
  "trace (settle t p) = trace p" "exited (settle t p) = exited p"
  "logger (settle t p) = logger p" "tasks (settle t p) = tasks p"
  "serverInstance (settle t p) = serverInstance p" "listeners (settle t p) = listeners p"
  "sigHandlers (settle t p) = sigHandlers p" "uncaughtHandlers (settle t p) = uncaughtHandlers p"
  "rejectionHandlers (settle t p) = rejectionHandlers p"
  by (simp_all add: settle_def split: option.splits)

subsection \<open>After a successful start\<close>

lemma list_all_update: "list_all P xs \<Longrightarrow> P x \<Longrightarrow> list_all P (xs[i := x])"
  using set_update_subset_insert [of xs i x] by (auto simp: list_all_iff)

lemma started_shutdown_keeps:
  "started lg p \<Longrightarrow>
   started lg (p\<lparr>tasks := tasks p @ [AwaitServerClose], trace := trace p @ [ServerClose 0]\<rparr>)"
  by (simp add: started_def init_order_simps)

lemma started_Signal:
  "started lg p \<Longrightarrow> exited p = None \<Longrightarrow>
   step env (Signal s) p =
     p\<lparr>tasks := tasks p @ [AwaitServerClose], trace := trace p @ [ServerClose 0]\<rparr>"
  by (cases s) (simp_all add: step_def started_def gracefulShutdown_def prim_defs)

lemma started_Uncaught:
  "started lg p \<Longrightarrow> exited p = None \<Longrightarrow>
   step env (UncaughtException e) p =
     p\<lparr>tasks := tasks p @ [AwaitServerClose],
       trace := trace p @ [SinkError lg (UncaughtFault e), ServerClose 0]\<rparr>"
  by (simp add: step_def started_def on_uncaughtException_def gracefulShutdown_def prim_defs)

lemma started_Rejection:
  "started lg p \<Longrightarrow> exited p = None \<Longrightarrow>
   step env (UnhandledRejection r) p =
     p\<lparr>tasks := tasks p @ [AwaitServerClose],
       trace := trace p @ [SinkError lg (UnobservedRejection r), ServerClose 0]\<rparr>"
  by (simp add: step_def started_def on_unhandledRejection_def gracefulShutdown_def prim_defs)

lemma started_step: "started lg p \<Longrightarrow> started lg (step env ev p)"
proof (cases "exited p = None")
  case False
  assume "started lg p"
  with False show ?thesis by (simp add: exited_step)
next
  case live: True
  assume st: "started lg p"
  show ?thesis
  proof (cases ev)
    case (Settled i r)
    show ?thesis
    proof (cases "i < length (tasks p)")
      case False
      with st live Settled show ?thesis by (simp add: step_def)
    next
      case True
      from st have "list_all shutdown_task (tasks p)" by (simp add: started_def)
      with True have sh: "shutdown_task (tasks p ! i)" by (simp add: list_all_length)
      from st have upd: "list_all shutdown_task ((tasks p)[i := t])" if "shutdown_task t" for t
        using that by (simp add: started_def list_all_update)
      from sh st live Settled True upd [of Done] upd [of AwaitSequelizeClose] show ?thesis
        by (cases "tasks p ! i")
           (auto simp: step_def started_def shutdown_defs prim_defs settle_def init_order_simps
              Let_def split: option.splits)
    qed
  next
    case (Listening h)
    with st live show ?thesis
      by (auto simp: step_def started_def on_listening_def prim_defs init_order_simps)
  next
    case (ServerError h e)
    with st live show ?thesis
      by (auto simp: step_def started_def on_server_error_def prim_defs init_order_simps
            Let_def)
  next
    case (Signal s)
    with st live show ?thesis
      using started_shutdown_keeps [OF st] by (simp add: started_Signal [OF st live])
  next
    case (UncaughtException e)
    with st live show ?thesis
      by (simp add: started_Uncaught [OF st live]) (simp add: started_def init_order_simps)
  next
    case (UnhandledRejection r)
    with st live show ?thesis
      by (simp add: started_Rejection [OF st live]) (simp add: started_def init_order_simps)
  qed
qed

lemma started_pending: "started lg p \<Longrightarrow> pending p = []"
  by (simp add: started_def pending_def)

lemma started_not_awaited:
  "started lg p \<Longrightarrow> i < length (tasks p) \<Longrightarrow> awaited (tasks p ! i) = None"
  by (simp add: started_def list_all_length shutdown_task_awaited)

subsection \<open>During the start sequence\<close>

lemma starting_boot: "starting (boot env)"
  by (simp add: boot_def startServer_def init_proc_def starting_def prim_defs init_order_simps)

lemma starting_tasks: "starting p \<Longrightarrow> \<exists>t c. tasks p = [t] \<and> awaited t = Some c"
  by (auto simp: starting_def split: list.splits option.splits)

lemma starting_order:
  assumes "starting p" and "tasks p = [t]" and "awaited t = Some c"
  shows "prefix (init_order (trace p)) [Logger, Persistence, Messaging]"
    and "pending p = [c]"
    and "last (init_order (trace p)) = c"
proof -
  from assms have io: "settledInits p = takeWhile (\<lambda>d. d \<noteq> c) [Logger, Persistence, Messaging]"
    "init_order (trace p) = settledInits p @ [c]"
    by (simp_all add: starting_def)
  from assms(3) have c: "c = Logger \<or> c = Persistence \<or> c = Messaging"
    by (cases t) auto
  from c io show "prefix (init_order (trace p)) [Logger, Persistence, Messaging]"
    by auto
  from c io show "pending p = [c]"
    by (auto simp: pending_def)
  from io show "last (init_order (trace p)) = c"
    by simp
qed

text \<open>An event no handler is registered for ends the process and starts nothing.\<close>

lemma starting_default:
  assumes "starting p"
  shows "step env (Signal s) p = default_signal s p"
    and "step env (UncaughtException e) p = default_fault p"
    and "step env (UnhandledRejection r) p = default_fault p"
  using assms by (simp_all add: starting_def step_def)

lemma starting_no_listener:
  assumes "starting p"
  shows "step env (Listening h) p = p" and "step env (ServerError h e) p = p"
  using assms by (simp_all add: starting_def step_def)

lemma starting_other_task:
  "starting p \<Longrightarrow> i \<noteq> 0 \<Longrightarrow> step env (Settled i r) p = p"
  by (auto simp: starting_def step_def split: list.splits)

lemma starting_ended:
  assumes st: "starting p"
    and q: "trace q = trace p @ [x]" "init_of x = None" "settledInits q = settledInits p"
      "exited q \<noteq> None" "logger q = logger p"
  shows "stopped_early q"
proof -
  from st obtain t c where t: "tasks p = [t]" "awaited t = Some c"
    using starting_tasks by blast
  note o = starting_order [OF st t]
  from q have io: "init_order (trace q) = init_order (trace p)"
    by (simp add: init_order_simps)
  from q io have pe: "pending q = pending p"
    by (simp add: pending_def)
  from o(1) have "prefix (init_order (trace p)) ([Logger, Persistence, Messaging] @ [ListenerBind])"
    by (rule prefix_prefix)
  with st q io pe o show ?thesis
    by (simp add: stopped_early_def starting_def)
qed

lemma starting_Settled:
  "starting p \<Longrightarrow>
   starting (step env (Settled 0 r) p) \<or> (\<exists>lg. started lg (step env (Settled 0 r) p))
     \<or> stopped_early (step env (Settled 0 r) p)"
proof -
  assume st: "starting p"
  then obtain t c where t: "tasks p = [t]" "awaited t = Some c"
    using starting_tasks by blast
  show ?thesis
  proof (cases t)
    case AwaitInitLogger
    with st t show ?thesis
      by (cases r; cases "getLogger_ret env")
         (simp_all add: starting_def stopped_early_def pending_def step_def start_defs prim_defs
            settle_def init_order_simps)
  next
    case (AwaitInitDB lg)
    with st t show ?thesis
      by (cases r)
         (simp_all add: starting_def stopped_early_def pending_def step_def start_defs prim_defs
            settle_def init_order_simps)
  next
    case (AwaitInitMail lg)
    with st t show ?thesis
      by (cases r; cases "listen_throws env")
         (simp_all add: starting_def stopped_early_def started_def pending_def step_def start_defs
            prim_defs settle_def init_order_simps)
  qed (use t in simp_all)
qed

lemma starting_step:
  assumes st: "starting p"
  shows "starting (step env ev p) \<or> (\<exists>lg. started lg (step env ev p)) \<or> stopped_early (step env ev p)"
proof (cases ev)
  case (Settled i r)
  show ?thesis
  proof (cases "i = 0")
    case True
    with Settled show ?thesis using starting_Settled [OF st] by simp
  next
    case False
    with Settled st show ?thesis by (simp add: starting_other_task)
  qed
next
  case (Listening h)
  with st show ?thesis by (simp add: starting_no_listener)
next
  case (ServerError h e)
  with st show ?thesis by (simp add: starting_no_listener)
next
  case (Signal s)
  have "stopped_early (default_signal s p)"
    by (rule starting_ended [OF st, where x = "Killed s"]) (simp_all add: default_signal_def emit_def)
  with Signal show ?thesis by (simp add: starting_default [OF st])
next
  case (UncaughtException e)
  have "stopped_early (default_fault p)"
    by (rule starting_ended [OF st, where x = Crashed]) (simp_all add: default_fault_def emit_def)
  with UncaughtException show ?thesis by (simp add: starting_default [OF st])
next
  case (UnhandledRejection r)
  have "stopped_early (default_fault p)"
    by (rule starting_ended [OF st, where x = Crashed]) (simp_all add: default_fault_def emit_def)
  with UnhandledRejection show ?thesis by (simp add: starting_default [OF st])
qed

subsection \<open>Every state the program reaches\<close>

lemma phase_step: "phase p \<Longrightarrow> phase (step env ev p)"
proof -
  assume "phase p"
  then consider "starting p" | lg where "started lg p" | "stopped_early p"
    by (auto simp: phase_def)
  then show ?thesis
  proof cases
    case 1
    then show ?thesis using starting_step [OF 1, of env ev] by (auto simp: phase_def)
  next
    case 2
    then show ?thesis using started_step [of lg p env ev] by (auto simp: phase_def)
  next
    case 3
    then show ?thesis by (simp add: phase_def stopped_early_def exited_step)
  qed
qed

lemma phase_run: "phase p \<Longrightarrow> phase (run env evs p)"
  by (induction evs arbitrary: p) (simp_all add: run_Nil run_Cons phase_step)

lemma phase_boot_run: "phase (run env evs (boot env))"
  by (rule phase_run) (simp add: phase_def starting_boot)

section \<open>The start sequence\<close>

lemma starting_failure:
  assumes "starting p" and "i < length (tasks p)"
  shows "trace (step env (Settled i (Some e)) p) = trace p @ [ConsoleError (StartFailed e), Exit 1]"
    and "exited (step env (Settled i (Some e)) p) = Some 1"
proof -
  from assms(1) obtain t c where t: "tasks p = [t]" "awaited t = Some c"
    using starting_tasks by blast
  with assms(2) have i: "i = 0" by simp
  from assms(1) have l: "logger p = None" "exited p = None" by (simp_all add: starting_def)
  from t i l show "trace (step env (Settled i (Some e)) p) = trace p @ [ConsoleError (StartFailed e), Exit 1]"
    by (cases t) (simp_all add: step_def startServer_catch_def prim_defs settle_def)
  from t i l show "exited (step env (Settled i (Some e)) p) = Some 1"
    by (cases t) (simp_all add: step_def startServer_catch_def prim_defs settle_def)
qed

text \<open>What the start sequence does when the initializer it waits for succeeds.\<close>

lemma starting_success:
  assumes st: "starting p" and t: "tasks p = [t]"
  shows "t = AwaitInitLogger \<Longrightarrow> getLogger_ret env \<noteq> None \<Longrightarrow>
           init_order (trace (step env (Settled 0 None) p)) = [Logger, Persistence] \<and>
           pending (step env (Settled 0 None) p) = [Persistence] \<and>
           exited (step env (Settled 0 None) p) = None"
    and "t = AwaitInitLogger \<Longrightarrow> getLogger_ret env = None \<Longrightarrow>
           init_order (trace (step env (Settled 0 None) p)) = [Logger] \<and>
           pending (step env (Settled 0 None) p) = [] \<and>
           exited (step env (Settled 0 None) p) = Some 1"
    and "t = AwaitInitDB lg \<Longrightarrow>
           init_order (trace (step env (Settled 0 None) p)) = [Logger, Persistence, Messaging] \<and>
           pending (step env (Settled 0 None) p) = [Messaging] \<and>
           exited (step env (Settled 0 None) p) = None"
    and "t = AwaitInitMail lg \<Longrightarrow>
           init_order (trace (step env (Settled 0 None) p)) =
             [Logger, Persistence, Messaging, ListenerBind] \<and>
           pending (step env (Settled 0 None) p) = []"
  using st t
  by (auto simp: starting_def pending_def step_def start_defs prim_defs settle_def init_order_simps
        Let_def split: option.splits)

lemma prefix3_no_bind:
  "prefix cs [Logger, Persistence, Messaging] \<Longrightarrow> ListenerBind \<notin> set cs"
  using set_mono_prefix by fastforce

text \<open>
  Claim C1. In every state \<open>p\<close> the program reaches, whatever events arrived:
  the initializations started so far are an initial part of logger, persistence,
  messaging transport, listener bind, in this order, and the sequence begins with the
  logger. At most one initializer has been started and has not settled, and it is the
  last one that was started, so no two overlap. When the initializer the sequence waits
  for fails, the catch block writes the failure (to the console) and calls
  \<open>process.exit(1)\<close>, and the listener bind is not attempted then or later. When it
  succeeds, the next component and only the next is started: persistence after the
  logger, the messaging transport after persistence, the listener bind after the
  messaging transport, and at the bind nothing is pending. (A logger that is null after
  its initialization ends the sequence with exit code 1.)
\<close>

theorem C1_start_sequence:
  "p = run env evs (boot env) \<Longrightarrow>
   prefix (init_order (trace p)) [Logger, Persistence, Messaging, ListenerBind] \<and>
   (pending p = [] \<or> pending p = [last (init_order (trace p))]) \<and>
   (exited p = None \<and> i < length (tasks p) \<and> awaited (tasks p ! i) \<noteq> None \<longrightarrow>
      trace (step env (Settled i (Some e)) p) = trace p @ [ConsoleError (StartFailed e), Exit 1] \<and>
      exited (step env (Settled i (Some e)) p) = Some 1 \<and>
      ListenerBind \<notin> set (init_order (trace (run env evs' (step env (Settled i (Some e)) p))))) \<and>
   (exited p = None \<and> i < length (tasks p) \<and> awaited (tasks p ! i) = Some c \<longrightarrow>
      pending p = [c] \<and> last (init_order (trace p)) = c \<and>
      (c = Logger \<and> getLogger_ret env \<noteq> None \<longrightarrow>
         init_order (trace (step env (Settled i None) p)) = [Logger, Persistence] \<and>
         pending (step env (Settled i None) p) = [Persistence]) \<and>
      (c = Logger \<and> getLogger_ret env = None \<longrightarrow>
         init_order (trace (step env (Settled i None) p)) = [Logger] \<and>
         exited (step env (Settled i None) p) = Some 1) \<and>
      (c = Persistence \<longrightarrow>
         init_order (trace (step env (Settled i None) p)) = [Logger, Persistence, Messaging] \<and>
         pending (step env (Settled i None) p) = [Messaging]) \<and>
      (c = Messaging \<longrightarrow>
         init_order (trace (step env (Settled i None) p)) =
           [Logger, Persistence, Messaging, ListenerBind] \<and>
         pending (step env (Settled i None) p) = [])) \<and>
   init_order (trace (boot env)) = [Logger] \<and> pending (boot env) = [Logger]"
proof -
  assume p: "p = run env evs (boot env)"
  have boot: "init_order (trace (boot env)) = [Logger] \<and> pending (boot env) = [Logger]"
    by (simp add: boot_def startServer_def init_proc_def pending_def prim_defs init_order_simps)
  from p have "phase p" by (simp add: phase_boot_run)
  then consider "starting p" | lg where "started lg p" | "stopped_early p"
    by (auto simp: phase_def)
  then have "prefix (init_order (trace p)) [Logger, Persistence, Messaging, ListenerBind] \<and>
   (pending p = [] \<or> pending p = [last (init_order (trace p))]) \<and>
   (exited p = None \<and> i < length (tasks p) \<and> awaited (tasks p ! i) \<noteq> None \<longrightarrow>
      trace (step env (Settled i (Some e)) p) = trace p @ [ConsoleError (StartFailed e), Exit 1] \<and>
      exited (step env (Settled i (Some e)) p) = Some 1 \<and>
      ListenerBind \<notin> set (init_order (trace (run env evs' (step env (Settled i (Some e)) p))))) \<and>
   (exited p = None \<and> i < length (tasks p) \<and> awaited (tasks p ! i) = Some c \<longrightarrow>
      pending p = [c] \<and> last (init_order (trace p)) = c \<and>
      (c = Logger \<and> getLogger_ret env \<noteq> None \<longrightarrow>
         init_order (trace (step env (Settled i None) p)) = [Logger, Persistence] \<and>
         pending (step env (Settled i None) p) = [Persistence]) \<and>
      (c = Logger \<and> getLogger_ret env = None \<longrightarrow>
         init_order (trace (step env (Settled i None) p)) = [Logger] \<and>
         exited (step env (Settled i None) p) = Some 1) \<and>
      (c = Persistence \<longrightarrow>
         init_order (trace (step env (Settled i None) p)) = [Logger, Persistence, Messaging] \<and>
         pending (step env (Settled i None) p) = [Messaging]) \<and>
      (c = Messaging \<longrightarrow>
         init_order (trace (step env (Settled i None) p)) =
           [Logger, Persistence, Messaging, ListenerBind] \<and>
         pending (step env (Settled i None) p) = []))"
  proof cases
    case 1
    then obtain t d where t: "tasks p = [t]" "awaited t = Some d"
      using starting_tasks by blast
    note o = starting_order [OF 1 t]
    from o(1) have "prefix (init_order (trace p)) ([Logger, Persistence, Messaging] @ [ListenerBind])"
      by (rule prefix_prefix)
    then have a: "prefix (init_order (trace p)) [Logger, Persistence, Messaging, ListenerBind]"
      by simp
    from o have b: "pending p = [last (init_order (trace p))]"
      by simp
    have f: "trace (step env (Settled i (Some e)) p) = trace p @ [ConsoleError (StartFailed e), Exit 1] \<and>
      exited (step env (Settled i (Some e)) p) = Some 1 \<and>
      ListenerBind \<notin> set (init_order (trace (run env evs' (step env (Settled i (Some e)) p))))"
      if i: "i < length (tasks p)"
    proof -
      note tr = starting_failure(1) [OF 1 i, of env e]
      note ex = starting_failure(2) [OF 1 i, of env e]
      from ex have "run env evs' (step env (Settled i (Some e)) p) = step env (Settled i (Some e)) p"
        by (simp add: exited_run)
      moreover have "ListenerBind \<notin> set (init_order (trace p))"
        by (rule prefix3_no_bind [OF o(1)])
      ultimately show ?thesis using tr ex by (simp add: init_order_simps)
    qed
    have s: "pending p = [c] \<and> last (init_order (trace p)) = c \<and>
      (c = Logger \<and> getLogger_ret env \<noteq> None \<longrightarrow>
         init_order (trace (step env (Settled i None) p)) = [Logger, Persistence] \<and>
         pending (step env (Settled i None) p) = [Persistence]) \<and>
      (c = Logger \<and> getLogger_ret env = None \<longrightarrow>
         init_order (trace (step env (Settled i None) p)) = [Logger] \<and>
         exited (step env (Settled i None) p) = Some 1) \<and>
      (c = Persistence \<longrightarrow>
         init_order (trace (step env (Settled i None) p)) = [Logger, Persistence, Messaging] \<and>
         pending (step env (Settled i None) p) = [Messaging]) \<and>
      (c = Messaging \<longrightarrow>
         init_order (trace (step env (Settled i None) p)) =
           [Logger, Persistence, Messaging, ListenerBind] \<and>
         pending (step env (Settled i None) p) = [])"
      if i: "i < length (tasks p)" and c: "awaited (tasks p ! i) = Some c"
    proof -
      from t i have i0: "i = 0" by simp
      with t c have dc: "d = c" by simp
      note su = starting_success [OF 1 t(1), where env = env]
      from t dc su o i0 show ?thesis
        by (cases t) auto
    qed
    from a b f s show ?thesis by blast
  next
    case 2
    then have "init_order (trace p) = [Logger, Persistence, Messaging, ListenerBind]"
      by (simp add: started_def)
    with started_pending [OF 2] started_not_awaited [OF 2, of i] show ?thesis by auto
  next
    case 3
    then show ?thesis by (auto simp: stopped_early_def)
  qed
  with boot show ?thesis by blast
qed

text \<open>
  The start sequence at the moment \<open>initDB()\<close> is pending: it rejects, or it resolves
  and the mail transport is started.
\<close>

theorem C1_start_sequence_witness:
  "exited (run sample_env [Settled 0 None] (boot sample_env)) = None \<and>
   0 < length (tasks (run sample_env [Settled 0 None] (boot sample_env))) \<and>
   awaited (tasks (run sample_env [Settled 0 None] (boot sample_env)) ! 0) = Some Persistence \<and>
   pending (run sample_env [Settled 0 None] (boot sample_env)) = [Persistence] \<and>
   trace (step sample_env (Settled 0 (Some sample_error)) (run sample_env [Settled 0 None] (boot sample_env)))
     = [InitLogger, GetLogger, SinkInfo 7 DbInitBegin, InitDB,
        ConsoleError (StartFailed sample_error), Exit 1] \<and>
   exited (step sample_env (Settled 0 (Some sample_error)) (run sample_env [Settled 0 None] (boot sample_env)))
     = Some 1 \<and>
   init_order (trace (step sample_env (Settled 0 None) (run sample_env [Settled 0 None] (boot sample_env))))
     = [Logger, Persistence, Messaging] \<and>
   pending (step sample_env (Settled 0 None) (run sample_env [Settled 0 None] (boot sample_env)))
     = [Messaging]"
proof -
  have h: "exited (run sample_env [Settled 0 None] (boot sample_env)) = None \<and>
    0 < length (tasks (run sample_env [Settled 0 None] (boot sample_env))) \<and>
    awaited (tasks (run sample_env [Settled 0 None] (boot sample_env)) ! 0) = Some Persistence"
    by code_simp
  have t: "trace (run sample_env [Settled 0 None] (boot sample_env))
    = [InitLogger, GetLogger, SinkInfo 7 DbInitBegin, InitDB]"
    by code_simp
  from C1_start_sequence [OF refl, of sample_env "[Settled 0 None]" 0 sample_error "[]" Persistence] h t
  show ?thesis by simp
qed

section \<open>Failures while stopping and while binding\<close>

lemma catch_trace:
  "trace (gracefulShutdown_catch e p) =
     trace p @ (case logger p of None \<Rightarrow> [] | Some lg \<Rightarrow> [SinkError lg (ShutdownFailed e)]) @ [Exit 1]"
  by (simp add: gracefulShutdown_catch_def prim_defs split: option.splits)

lemma catch_exited: "exited (gracefulShutdown_catch e p) = Some 1"
  by (simp add: gracefulShutdown_catch_def prim_defs split: option.splits)

lemma Settled_close_error:
  "exited p = None \<Longrightarrow> i < length (tasks p) \<Longrightarrow> tasks p ! i = AwaitServerClose \<Longrightarrow>
   step env (Settled i (Some e)) p = gracefulShutdown_catch e (set_task i Done p)"
  by (simp add: step_def gracefulShutdown_closed_def)

text \<open>
  Claim C3 says that the connection is still closed when stopping the listener fails.
  In the run below the service is up, SIGINT arrives, and the callback of \<open>close\<close>
  receives an error: the process exits with code 1 and \<open>sequelize.close()\<close> was never
  called, although \<open>getSequelize()\<close> returns a connection.
\<close>

theorem C3_counterexample:
  "tasks (run sample_env (startup_ok @ [Signal SIGINT]) (boot sample_env)) ! 1 = AwaitServerClose \<and>
   getSequelize_ret sample_env = Some 9 \<and>
   exited (run sample_env (startup_ok @ [Signal SIGINT, Settled 1 (Some sample_error)])
     (boot sample_env)) = Some 1 \<and>
   \<not> list_ex is_SequelizeClose
     (trace (run sample_env (startup_ok @ [Signal SIGINT, Settled 1 (Some sample_error)])
       (boot sample_env)))"
  by code_simp

text \<open>
  Claim C3, as the code has it. One try block holds both release steps (lines 28-52).
  When the callback of \<open>close\<close> receives an error, the promise of line 31 rejects and
  control goes to the catch block: it writes the error on the module-level logger if
  there is one, and calls \<open>process.exit(1)\<close>. No \<open>sequelize.close()\<close> is added to
  the trace, and nothing runs afterwards.
\<close>

theorem C3_listener_stop_error_aborts:
  "exited p = None \<Longrightarrow> i < length (tasks p) \<Longrightarrow> tasks p ! i = AwaitServerClose \<Longrightarrow>
   trace (step env (Settled i (Some e)) p) =
     trace p @ (case logger p of None \<Rightarrow> [] | Some lg \<Rightarrow> [SinkError lg (ShutdownFailed e)]) @ [Exit 1] \<and>
   filter is_SequelizeClose (trace (step env (Settled i (Some e)) p)) =
     filter is_SequelizeClose (trace p) \<and>
   exited (step env (Settled i (Some e)) p) = Some 1 \<and>
   run env evs (step env (Settled i (Some e)) p) = step env (Settled i (Some e)) p"
proof -
  assume a: "exited p = None" "i < length (tasks p)" "tasks p ! i = AwaitServerClose"
  have s: "step env (Settled i (Some e)) p = gracefulShutdown_catch e (set_task i Done p)"
    by (rule Settled_close_error [OF a])
  have t: "trace (step env (Settled i (Some e)) p) =
     trace p @ (case logger p of None \<Rightarrow> [] | Some lg \<Rightarrow> [SinkError lg (ShutdownFailed e)]) @ [Exit 1]"
    by (simp add: s catch_trace set_task_def)
  have x: "exited (step env (Settled i (Some e)) p) = Some 1"
    by (simp add: s catch_exited)
  from x have r: "run env evs (step env (Settled i (Some e)) p) = step env (Settled i (Some e)) p"
    by (simp add: exited_run)
  from t have f: "filter is_SequelizeClose (trace (step env (Settled i (Some e)) p)) =
     filter is_SequelizeClose (trace p)"
    by (simp split: option.splits)
  from t f x r show ?thesis by blast
qed

text \<open>The same run as in the counterexample, through the theorem.\<close>

theorem C3_listener_stop_error_aborts_witness:
  "exited (run sample_env (startup_ok @ [Signal SIGINT]) (boot sample_env)) = None \<and>
   1 < length (tasks (run sample_env (startup_ok @ [Signal SIGINT]) (boot sample_env))) \<and>
   tasks (run sample_env (startup_ok @ [Signal SIGINT]) (boot sample_env)) ! 1 = AwaitServerClose \<and>
   exited (step sample_env (Settled 1 (Some sample_error))
     (run sample_env (startup_ok @ [Signal SIGINT]) (boot sample_env))) = Some 1 \<and>
   filter is_SequelizeClose (trace (step sample_env (Settled 1 (Some sample_error))
     (run sample_env (startup_ok @ [Signal SIGINT]) (boot sample_env)))) = []"
proof -
  have h1: "exited (run sample_env (startup_ok @ [Signal SIGINT]) (boot sample_env)) = None"
    by code_simp
  have h2: "1 < length (tasks (run sample_env (startup_ok @ [Signal SIGINT]) (boot sample_env)))"
    by code_simp
  have h3: "tasks (run sample_env (startup_ok @ [Signal SIGINT]) (boot sample_env)) ! 1 = AwaitServerClose"
    by code_simp
  have h4: "filter is_SequelizeClose
      (trace (run sample_env (startup_ok @ [Signal SIGINT]) (boot sample_env))) = []"
    by code_simp
  from C3_listener_stop_error_aborts [OF h1 h2 h3, of sample_env sample_error "[]"] h1 h2 h3 h4
  show ?thesis by (simp split: option.splits)
qed

lemma ServerError_step:
  "exited p = None \<Longrightarrow> h < length (listeners p) \<Longrightarrow>
   step env (ServerError h e) p = on_server_error env (listeners p ! h) e p"
  by (simp add: step_def)

lemma on_server_error_trace:
  "trace (on_server_error env lg e p) =
     trace p @ [SinkError lg (HttpStartFailed e)] @
       (if err_code e = ''EADDRINUSE'' then [SinkError lg (PortInUse (PORT env))] else []) @
       [Exit 1]"
  by (simp add: on_server_error_def prim_defs Let_def)

lemma on_server_error_exited: "exited (on_server_error env lg e p) = Some 1"
  by (simp add: on_server_error_def prim_defs Let_def)

text \<open>
  Claim C7. When a server the program has bound reports an error event, the handler of
  lines 85-92 writes the failure, writes the port-in-use line when the code is
  EADDRINUSE, and calls \<open>process.exit(1)\<close>; if the listening callback had not run
  before, it never runs.
\<close>

theorem C7_bind_error:
  "exited p = None \<Longrightarrow> h < length (listeners p) \<Longrightarrow>
   trace (step env (ServerError h e) p) =
     trace p @ [SinkError (listeners p ! h) (HttpStartFailed e)] @
       (if err_code e = ''EADDRINUSE'' then [SinkError (listeners p ! h) (PortInUse (PORT env))]
        else []) @
       [Exit 1] \<and>
   exited (step env (ServerError h e) p) = Some 1 \<and>
   (\<not> reached_Running p \<longrightarrow> \<not> reached_Running (run env evs (step env (ServerError h e) p)))"
proof -
  assume a: "exited p = None" "h < length (listeners p)"
  note s = ServerError_step [OF a, of env e]
  have x: "exited (step env (ServerError h e) p) = Some 1"
    by (simp add: s on_server_error_exited)
  then have r: "run env evs (step env (ServerError h e) p) = step env (ServerError h e) p"
    by (simp add: exited_run)
  show ?thesis
    by (simp add: r x) (simp add: s on_server_error_trace reached_Running_def list_ex_iff)
qed

text \<open>The service has just bound its server; the port turns out to be taken.\<close>

theorem C7_bind_error_witness:
  "exited (run sample_env startup_ok (boot sample_env)) = None \<and>
   0 < length (listeners (run sample_env startup_ok (boot sample_env))) \<and>
   \<not> reached_Running (run sample_env startup_ok (boot sample_env)) \<and>
   trace (step sample_env (ServerError 0 sample_error) (run sample_env startup_ok (boot sample_env))) =
     trace (run sample_env startup_ok (boot sample_env)) @
       [SinkError 7 (HttpStartFailed sample_error), SinkError 7 (PortInUse ''3000''), Exit 1] \<and>
   exited (step sample_env (ServerError 0 sample_error)
     (run sample_env startup_ok (boot sample_env))) = Some 1 \<and>
   \<not> reached_Running (run sample_env [Listening 0]
     (step sample_env (ServerError 0 sample_error) (run sample_env startup_ok (boot sample_env))))"
proof -
  have h1: "exited (run sample_env startup_ok (boot sample_env)) = None"
    by code_simp
  have h2: "0 < length (listeners (run sample_env startup_ok (boot sample_env)))"
    by code_simp
  have h3: "\<not> reached_Running (run sample_env startup_ok (boot sample_env))"
    by code_simp
  have h4: "listeners (run sample_env startup_ok (boot sample_env)) ! 0 = 7"
    by code_simp
  have h5: "err_code sample_error = ''EADDRINUSE''" "PORT sample_env = ''3000''"
    by code_simp+
  from C7_bind_error [OF h1 h2, of sample_env sample_error "[Listening 0]"] h1 h2 h3 h4 h5
  show ?thesis by simp
qed

section \<open>A bind failure after the database is up\<close>

text \<open>
  Claim C4 says that the connection is closed before the process exits when the bind
  fails. In the run below the three initializers succeed, the server is created, and it
  reports that the port is taken: the process exits with code 1 and
  \<open>sequelize.close()\<close> was never called.
\<close>

theorem C4_counterexample:
  "trace (run sample_env startup_ok (boot sample_env)) =
     [InitLogger, GetLogger, SinkInfo 7 DbInitBegin, InitDB, GetSequelize, SinkInfo 7 DbInitDone,
      InitMail, SinkInfo 7 (HttpStarting ''3000''), Listen ''3000''] \<and>
   getSequelize_ret sample_env = Some 9 \<and>
   exited (run sample_env (startup_ok @ [ServerError 0 sample_error]) (boot sample_env)) = Some 1 \<and>
   \<not> list_ex is_SequelizeClose
     (trace (run sample_env (startup_ok @ [ServerError 0 sample_error]) (boot sample_env)))"
  by code_simp

lemma startServer_catch_trace:
  "trace (startServer_catch e p) =
     trace p @ [case logger p of None \<Rightarrow> ConsoleError (StartFailed e)
                | Some lg \<Rightarrow> SinkError lg (StartFailed e), Exit 1]"
  by (simp add: startServer_catch_def prim_defs split: option.splits)

lemma startServer_catch_exited: "exited (startServer_catch e p) = Some 1"
  by (simp add: startServer_catch_def prim_defs split: option.splits)

lemma listen_throws_step:
  "exited p = None \<Longrightarrow> i < length (tasks p) \<Longrightarrow> tasks p ! i = AwaitInitMail lg \<Longrightarrow>
   listen_throws env = Some e \<Longrightarrow>
   step env (Settled i None) p =
     startServer_catch e
       (emit (Listen (PORT env)) (emit (SinkInfo lg (HttpStarting (PORT env)))
         (set_task i Done (settle (AwaitInitMail lg) p))))"
  by (simp add: step_def startServer_mail_ready_def Let_def)

text \<open>
  Claim C4, as the code has it. Neither way a bind can fail closes the connection.
  The error event of the server (lines 85-92) and an exception thrown by
  \<open>app.listen\<close> itself (caught at lines 113-122) both end in \<open>process.exit(1)\<close>,
  and neither adds a \<open>sequelize.close()\<close> to the trace.
\<close>

theorem C4_bind_failure_exits_without_close:
  "(exited p = None \<and> h < length (listeners p) \<longrightarrow>
      exited (step env (ServerError h e) p) = Some 1 \<and>
      filter is_SequelizeClose (trace (step env (ServerError h e) p)) =
        filter is_SequelizeClose (trace p)) \<and>
   (exited p = None \<and> i < length (tasks p) \<and> tasks p ! i = AwaitInitMail lg \<and>
    listen_throws env = Some e \<longrightarrow>
      exited (step env (Settled i None) p) = Some 1 \<and>
      filter is_SequelizeClose (trace (step env (Settled i None) p)) =
        filter is_SequelizeClose (trace p))"
proof (intro conjI impI)
  assume a: "exited p = None \<and> h < length (listeners p)"
  then have s: "step env (ServerError h e) p = on_server_error env (listeners p ! h) e p"
    by (simp add: ServerError_step)
  show "exited (step env (ServerError h e) p) = Some 1"
    by (simp add: s on_server_error_exited)
  show "filter is_SequelizeClose (trace (step env (ServerError h e) p)) =
        filter is_SequelizeClose (trace p)"
    by (simp add: s on_server_error_trace)
next
  assume a: "exited p = None \<and> i < length (tasks p) \<and> tasks p ! i = AwaitInitMail lg \<and>
    listen_throws env = Some e"
  then have s: "step env (Settled i None) p =
     startServer_catch e
       (emit (Listen (PORT env)) (emit (SinkInfo lg (HttpStarting (PORT env)))
         (set_task i Done (settle (AwaitInitMail lg) p))))"
    by (simp add: listen_throws_step)
  show "exited (step env (Settled i None) p) = Some 1"
    by (simp add: s startServer_catch_exited)
  show "filter is_SequelizeClose (trace (step env (Settled i None) p)) =
        filter is_SequelizeClose (trace p)"
    by (simp add: s startServer_catch_trace prim_defs split: option.splits)
qed

text \<open>
  Both ways: the port is taken after a start without failure, and \<open>app.listen\<close> throws
  once the mail transport is ready.
\<close>

theorem C4_bind_failure_exits_without_close_witness:
  "exited (run sample_env startup_ok (boot sample_env)) = None \<and>
   0 < length (listeners (run sample_env startup_ok (boot sample_env))) \<and>
   exited (step sample_env (ServerError 0 sample_error)
     (run sample_env startup_ok (boot sample_env))) = Some 1 \<and>
   filter is_SequelizeClose (trace (step sample_env (ServerError 0 sample_error)
     (run sample_env startup_ok (boot sample_env)))) = [] \<and>
   exited (run sample_env [Settled 0 None, Settled 0 None] (boot sample_env)) = None \<and>
   0 < length (tasks (run sample_env [Settled 0 None, Settled 0 None] (boot sample_env))) \<and>
   tasks (run sample_env [Settled 0 None, Settled 0 None] (boot sample_env)) ! 0 = AwaitInitMail 7 \<and>
   listen_throws (sample_env\<lparr>listen_throws := Some sample_error\<rparr>) = Some sample_error \<and>
   exited (step (sample_env\<lparr>listen_throws := Some sample_error\<rparr>) (Settled 0 None)
     (run sample_env [Settled 0 None, Settled 0 None] (boot sample_env))) = Some 1 \<and>
   filter is_SequelizeClose (trace (step (sample_env\<lparr>listen_throws := Some sample_error\<rparr>)
     (Settled 0 None) (run sample_env [Settled 0 None, Settled 0 None] (boot sample_env)))) = []"
proof -
  have a: "exited (run sample_env startup_ok (boot sample_env)) = None \<and>
    0 < length (listeners (run sample_env startup_ok (boot sample_env)))"
    by code_simp
  have a': "filter is_SequelizeClose (trace (run sample_env startup_ok (boot sample_env))) = []"
    by code_simp
  have b: "exited (run sample_env [Settled 0 None, Settled 0 None] (boot sample_env)) = None \<and>
    0 < length (tasks (run sample_env [Settled 0 None, Settled 0 None] (boot sample_env))) \<and>
    tasks (run sample_env [Settled 0 None, Settled 0 None] (boot sample_env)) ! 0 = AwaitInitMail 7 \<and>
    listen_throws (sample_env\<lparr>listen_throws := Some sample_error\<rparr>) = Some sample_error"
    by code_simp
  have b': "filter is_SequelizeClose
      (trace (run sample_env [Settled 0 None, Settled 0 None] (boot sample_env))) = []"
    by code_simp
  from C4_bind_failure_exits_without_close
         [of "run sample_env startup_ok (boot sample_env)" 0 sample_env sample_error]
       a a'
  have 1: "exited (step sample_env (ServerError 0 sample_error)
       (run sample_env startup_ok (boot sample_env))) = Some 1 \<and>
     filter is_SequelizeClose (trace (step sample_env (ServerError 0 sample_error)
       (run sample_env startup_ok (boot sample_env)))) = []"
    by simp
  from C4_bind_failure_exits_without_close
         [of "run sample_env [Settled 0 None, Settled 0 None] (boot sample_env)" _
             "sample_env\<lparr>listen_throws := Some sample_error\<rparr>" sample_error 0 7]
       b b'
  have 2: "exited (step (sample_env\<lparr>listen_throws := Some sample_error\<rparr>) (Settled 0 None)
       (run sample_env [Settled 0 None, Settled 0 None] (boot sample_env))) = Some 1 \<and>
     filter is_SequelizeClose (trace (step (sample_env\<lparr>listen_throws := Some sample_error\<rparr>)
       (Settled 0 None) (run sample_env [Settled 0 None, Settled 0 None] (boot sample_env)))) = []"
    by simp
  from a b 1 2 show ?thesis by blast
qed

section \<open>Shutdown without a server\<close>

text \<open>
  Claim C8 says that shutdown is a no-op before the service was started. Called on the
  state in which nothing has run yet, \<open>gracefulShutdown\<close> closes the connection when
  there is one, and terminates the process with code 0 when there is none.
\<close>

theorem C8_counterexample:
  "trace (gracefulShutdown sample_env ''SIGTERM'' init_proc) = [GetSequelize, SequelizeClose 9] \<and>
   gracefulShutdown sample_env ''SIGTERM'' init_proc \<noteq> init_proc \<and>
   exited (gracefulShutdown (sample_env\<lparr>getSequelize_ret := None\<rparr>) ''SIGTERM'' init_proc) = Some 0"
  by code_simp

lemma no_server_no_handlers:
  assumes "phase q" and "exited q = None" and "serverInstance q = None"
  shows "sigHandlers q = [] \<and> uncaughtHandlers q = [] \<and> rejectionHandlers q = []"
proof -
  from assms(1) consider "starting q" | lg where "started lg q" | "stopped_early q"
    by (auto simp: phase_def)
  then show ?thesis
  proof cases
    case 1
    then show ?thesis by (simp add: starting_def)
  next
    case 2
    with assms(3) show ?thesis by (simp add: started_def)
  next
    case 3
    with assms(2) show ?thesis by (simp add: stopped_early_def)
  qed
qed

text \<open>
  Claim C8, as the code has it. The program keeps no state variable and
  \<open>gracefulShutdown\<close> has no guard. Once the process has exited a call does nothing.
  Called on a live process without a server instance, it skips the listener step
  (line 30) and goes on: it asks for the connection, closes it if there is one, and calls
  \<open>process.exit\<close>, with code 0, or 1 when the close fails.
  The program itself never makes such a call: in every state it reaches, as long as
  there is no server instance no handler is registered, so a signal or a fault does not
  start the shutdown sequence; the runtime ends the process there.
\<close>

theorem C8_shutdown_without_server:
  "(exited p \<noteq> None \<longrightarrow> gracefulShutdown env sig p = p) \<and>
   (exited p = None \<and> serverInstance p = None \<and> logger p = None \<longrightarrow>
      (getSequelize_ret env = None \<longrightarrow>
         trace (gracefulShutdown env sig p) = trace p @ [GetSequelize, Exit 0] \<and>
         exited (gracefulShutdown env sig p) = Some 0) \<and>
      (getSequelize_ret env = Some c \<longrightarrow>
         trace (gracefulShutdown env sig p) = trace p @ [GetSequelize, SequelizeClose c] \<and>
         exited (gracefulShutdown env sig p) = None \<and>
         tasks (gracefulShutdown env sig p) = tasks p @ [AwaitSequelizeClose] \<and>
         trace (step env (Settled (length (tasks p)) None) (gracefulShutdown env sig p)) =
           trace p @ [GetSequelize, SequelizeClose c, Exit 0] \<and>
         exited (step env (Settled (length (tasks p)) None) (gracefulShutdown env sig p)) = Some 0 \<and>
         trace (step env (Settled (length (tasks p)) (Some e)) (gracefulShutdown env sig p)) =
           trace p @ [GetSequelize, SequelizeClose c, Exit 1] \<and>
         exited (step env (Settled (length (tasks p)) (Some e)) (gracefulShutdown env sig p)) = Some 1)) \<and>
   (q = run env evs (boot env) \<and> exited q = None \<and> serverInstance q = None \<longrightarrow>
      sigHandlers q = [] \<and> uncaughtHandlers q = [] \<and> rejectionHandlers q = [] \<and>
      trace (step env (Signal s) q) = trace q @ [Killed s] \<and>
      exited (step env (Signal s) q) = Some (signal_status s) \<and>
      trace (step env (UncaughtException e) q) = trace q @ [Crashed] \<and>
      exited (step env (UncaughtException e) q) = Some 1 \<and>
      trace (step env (UnhandledRejection r) q) = trace q @ [Crashed] \<and>
      exited (step env (UnhandledRejection r) q) = Some 1)"
proof -
  have 1: "(exited p \<noteq> None \<longrightarrow> gracefulShutdown env sig p = p) \<and>
   (exited p = None \<and> serverInstance p = None \<and> logger p = None \<longrightarrow>
      (getSequelize_ret env = None \<longrightarrow>
         trace (gracefulShutdown env sig p) = trace p @ [GetSequelize, Exit 0] \<and>
         exited (gracefulShutdown env sig p) = Some 0) \<and>
      (getSequelize_ret env = Some c \<longrightarrow>
         trace (gracefulShutdown env sig p) = trace p @ [GetSequelize, SequelizeClose c] \<and>
         exited (gracefulShutdown env sig p) = None \<and>
         tasks (gracefulShutdown env sig p) = tasks p @ [AwaitSequelizeClose] \<and>
         trace (step env (Settled (length (tasks p)) None) (gracefulShutdown env sig p)) =
           trace p @ [GetSequelize, SequelizeClose c, Exit 0] \<and>
         exited (step env (Settled (length (tasks p)) None) (gracefulShutdown env sig p)) = Some 0 \<and>
         trace (step env (Settled (length (tasks p)) (Some e)) (gracefulShutdown env sig p)) =
           trace p @ [GetSequelize, SequelizeClose c, Exit 1] \<and>
         exited (step env (Settled (length (tasks p)) (Some e)) (gracefulShutdown env sig p)) = Some 1))"
    by (simp add: step_def shutdown_defs prim_defs Let_def)
  have 2: "sigHandlers q = [] \<and> uncaughtHandlers q = [] \<and> rejectionHandlers q = [] \<and>
      trace (step env (Signal s) q) = trace q @ [Killed s] \<and>
      exited (step env (Signal s) q) = Some (signal_status s) \<and>
      trace (step env (UncaughtException e) q) = trace q @ [Crashed] \<and>
      exited (step env (UncaughtException e) q) = Some 1 \<and>
      trace (step env (UnhandledRejection r) q) = trace q @ [Crashed] \<and>
      exited (step env (UnhandledRejection r) q) = Some 1"
    if q: "q = run env evs (boot env)" "exited q = None" "serverInstance q = None"
  proof -
    from q(1) have "phase q" by (simp add: phase_boot_run)
    from no_server_no_handlers [OF this q(2) q(3)] q(2) show ?thesis
      by (simp add: step_def default_signal_def default_fault_def emit_def)
  qed
  from 1 2 show ?thesis by blast
qed

text \<open>
  On the state in which nothing has run yet, with and without a connection; on a process
  that has exited; and a signal while \<open>initDB()\<close> is pending.
\<close>

theorem C8_shutdown_without_server_witness:
  "exited init_proc = None \<and> serverInstance init_proc = None \<and> logger init_proc = None \<and>
   getSequelize_ret sample_env = Some 9 \<and>
   trace (gracefulShutdown sample_env ''SIGTERM'' init_proc) = [GetSequelize, SequelizeClose 9] \<and>
   exited (step sample_env (Settled 0 None) (gracefulShutdown sample_env ''SIGTERM'' init_proc)) = Some 0 \<and>
   getSequelize_ret (sample_env\<lparr>getSequelize_ret := None\<rparr>) = None \<and>
   trace (gracefulShutdown (sample_env\<lparr>getSequelize_ret := None\<rparr>) ''SIGTERM'' init_proc) =
     [GetSequelize, Exit 0] \<and>
   exited (run sample_env (startup_ok @ [ServerError 0 sample_error]) (boot sample_env)) \<noteq> None \<and>
   gracefulShutdown sample_env ''SIGTERM''
     (run sample_env (startup_ok @ [ServerError 0 sample_error]) (boot sample_env)) =
     run sample_env (startup_ok @ [ServerError 0 sample_error]) (boot sample_env) \<and>
   exited (run sample_env [Settled 0 None] (boot sample_env)) = None \<and>
   serverInstance (run sample_env [Settled 0 None] (boot sample_env)) = None \<and>
   trace (step sample_env (Signal SIGTERM) (run sample_env [Settled 0 None] (boot sample_env))) =
     [InitLogger, GetLogger, SinkInfo 7 DbInitBegin, InitDB, Killed SIGTERM] \<and>
   exited (step sample_env (Signal SIGTERM) (run sample_env [Settled 0 None] (boot sample_env))) =
     Some 143"
proof -
  have a: "exited init_proc = None \<and> serverInstance init_proc = None \<and> logger init_proc = None \<and>
    getSequelize_ret sample_env = Some 9 \<and>
    getSequelize_ret (sample_env\<lparr>getSequelize_ret := None\<rparr>) = None \<and> trace init_proc = [] \<and>
    length (tasks init_proc) = 0"
    by code_simp
  have b: "exited (run sample_env (startup_ok @ [ServerError 0 sample_error]) (boot sample_env)) \<noteq> None"
    by code_simp
  have c: "exited (run sample_env [Settled 0 None] (boot sample_env)) = None \<and>
    serverInstance (run sample_env [Settled 0 None] (boot sample_env)) = None"
    by code_simp
  have c': "trace (run sample_env [Settled 0 None] (boot sample_env)) =
    [InitLogger, GetLogger, SinkInfo 7 DbInitBegin, InitDB]"
    by code_simp
  from C8_shutdown_without_server [of init_proc sample_env "''SIGTERM''" 9 sample_error] a
  have 1: "trace (gracefulShutdown sample_env ''SIGTERM'' init_proc) = [GetSequelize, SequelizeClose 9] \<and>
    exited (step sample_env (Settled 0 None) (gracefulShutdown sample_env ''SIGTERM'' init_proc)) = Some 0"
    by simp
  from C8_shutdown_without_server [of init_proc "sample_env\<lparr>getSequelize_ret := None\<rparr>" "''SIGTERM''"] a
  have 2: "trace (gracefulShutdown (sample_env\<lparr>getSequelize_ret := None\<rparr>) ''SIGTERM'' init_proc) =
     [GetSequelize, Exit 0]"
    by simp
  from C8_shutdown_without_server
    [of "run sample_env (startup_ok @ [ServerError 0 sample_error]) (boot sample_env)" sample_env "''SIGTERM''"] b
  have 3: "gracefulShutdown sample_env ''SIGTERM''
     (run sample_env (startup_ok @ [ServerError 0 sample_error]) (boot sample_env)) =
     run sample_env (startup_ok @ [ServerError 0 sample_error]) (boot sample_env)"
    by simp
  from C8_shutdown_without_server
    [of _ sample_env _ _ _ "run sample_env [Settled 0 None] (boot sample_env)" "[Settled 0 None]" SIGTERM]
    c c'
  have 4: "trace (step sample_env (Signal SIGTERM) (run sample_env [Settled 0 None] (boot sample_env))) =
     [InitLogger, GetLogger, SinkInfo 7 DbInitBegin, InitDB, Killed SIGTERM] \<and>
     exited (step sample_env (Signal SIGTERM) (run sample_env [Settled 0 None] (boot sample_env))) =
     Some 143"
    by simp
  from a b c 1 2 3 4 show ?thesis by blast
qed

section \<open>The order of the release steps\<close>

lemma started_Settled:
  assumes "started lg p" and "exited p = None" and "i < length (tasks p)"
  shows "tasks p ! i = AwaitServerClose \<Longrightarrow> r = None \<Longrightarrow>
           filter is_SequelizeClose (trace (step env (Settled i r) p)) =
             filter is_SequelizeClose (trace p) @
               (case getSequelize_ret env of None \<Rightarrow> [] | Some c \<Rightarrow> [SequelizeClose c])"
    and "tasks p ! i \<noteq> AwaitServerClose \<or> r \<noteq> None \<Longrightarrow>
           filter is_SequelizeClose (trace (step env (Settled i r) p)) =
             filter is_SequelizeClose (trace p)"
proof -
  from assms(1) have l: "logger p = None" by (simp add: started_def)
  from assms(1,3) have sh: "shutdown_task (tasks p ! i)"
    by (simp add: started_def list_all_length)
  show "tasks p ! i = AwaitServerClose \<Longrightarrow> r = None \<Longrightarrow>
           filter is_SequelizeClose (trace (step env (Settled i r) p)) =
             filter is_SequelizeClose (trace p) @
               (case getSequelize_ret env of None \<Rightarrow> [] | Some c \<Rightarrow> [SequelizeClose c])"
    using assms(2,3) l
    by (simp add: step_def shutdown_defs prim_defs Let_def split: option.splits)
  show "tasks p ! i \<noteq> AwaitServerClose \<or> r \<noteq> None \<Longrightarrow>
           filter is_SequelizeClose (trace (step env (Settled i r) p)) =
             filter is_SequelizeClose (trace p)"
    using assms(2,3) l sh
    by (cases "tasks p ! i")
       (auto simp: step_def shutdown_defs prim_defs Let_def split: option.splits)
qed

lemma started_closes:
  assumes st: "started lg p"
    and more: "length (filter is_SequelizeClose (trace p)) <
               length (filter is_SequelizeClose (trace (step env ev p)))"
  shows "\<exists>i. ev = Settled i None \<and> i < length (tasks p) \<and> tasks p ! i = AwaitServerClose"
proof -
  from more have live: "exited p = None"
    by (cases "exited p") (simp_all add: step_def)
  show ?thesis
  proof (cases ev)
    case (Settled i r)
    show ?thesis
    proof (cases "i < length (tasks p)")
      case False
      with more live Settled show ?thesis by (simp add: step_def)
    next
      case True
      show ?thesis
      proof (cases "tasks p ! i = AwaitServerClose \<and> r = None")
        case True
        with \<open>i < length (tasks p)\<close> Settled show ?thesis by simp
      next
        case False
        then have "tasks p ! i \<noteq> AwaitServerClose \<or> r \<noteq> None" by simp
        from started_Settled(2) [OF st live True this, of env] more Settled show ?thesis by simp
      qed
    qed
  next
    case (Listening h)
    with more live show ?thesis
      by (simp add: step_def on_listening_def prim_defs split: if_splits)
  next
    case (ServerError h e)
    with more live show ?thesis
      by (simp add: step_def on_server_error_def prim_defs Let_def split: if_splits)
  next
    case (Signal s)
    with more show ?thesis by (simp add: started_Signal [OF st live])
  next
    case (UncaughtException e)
    with more show ?thesis by (simp add: started_Uncaught [OF st live])
  next
    case (UnhandledRejection r)
    with more show ?thesis by (simp add: started_Rejection [OF st live])
  qed
qed

lemma starting_closes:
  assumes "starting p"
  shows "filter is_SequelizeClose (trace (step env ev p)) = filter is_SequelizeClose (trace p)"
proof (cases ev)
  case (Settled i r)
  show ?thesis
  proof (cases "i = 0")
    case False
    with Settled assms show ?thesis by (simp add: starting_other_task)
  next
    case True
    from assms obtain t c where t: "tasks p = [t]" "awaited t = Some c"
      using starting_tasks by blast
    from assms have l: "logger p = None" "exited p = None" by (simp_all add: starting_def)
    from t l Settled True show ?thesis
      by (cases t)
         (auto simp: step_def start_defs prim_defs Let_def split: option.splits)
  qed
next
  case (Listening h)
  with assms show ?thesis by (simp add: starting_no_listener)
next
  case (ServerError h e)
  with assms show ?thesis by (simp add: starting_no_listener)
next
  case (Signal s)
  with assms show ?thesis by (simp add: starting_default default_signal_def emit_def)
next
  case (UncaughtException e)
  with assms show ?thesis by (simp add: starting_default default_fault_def emit_def)
next
  case (UnhandledRejection r)
  with assms show ?thesis by (simp add: starting_default default_fault_def emit_def)
qed

text \<open>
  Claim C9. One execution of \<open>gracefulShutdown\<close> with a server and a connection: it
  calls \<open>close\<close> on the server and is suspended until the callback runs, with nothing
  else released; when the callback runs without error it calls \<open>close\<close> on the
  connection and is suspended again; when that settles it exits with code 0.
  And in every state the program reaches, whichever events interleave: a step adds a
  \<open>sequelize.close()\<close> only when it is the callback of a listener \<open>close\<close> that an
  execution of the shutdown sequence was waiting for.
\<close>

theorem C9_release_order:
  "(exited p = None \<and> serverInstance p = Some h \<and> getSequelize_ret env = Some c \<and>
    i = length (tasks p) \<and> p1 = gracefulShutdown env sig p \<and>
    p2 = step env (Settled i None) p1 \<and> p3 = step env (Settled i None) p2 \<longrightarrow>
      releases (trace p1) = releases (trace p) @ [ServerClose h] \<and>
      exited p1 = None \<and> tasks p1 ! i = AwaitServerClose \<and>
      releases (trace p2) = releases (trace p) @ [ServerClose h, SequelizeClose c] \<and>
      exited p2 = None \<and> tasks p2 ! i = AwaitSequelizeClose \<and>
      releases (trace p3) = releases (trace p2) \<and> exited p3 = Some 0) \<and>
   (q = run env evs (boot env) \<and>
    length (filter is_SequelizeClose (trace q)) <
      length (filter is_SequelizeClose (trace (step env ev q))) \<longrightarrow>
      (\<exists>j. ev = Settled j None \<and> j < length (tasks q) \<and> tasks q ! j = AwaitServerClose))"
proof (intro conjI impI)
  assume a: "exited p = None \<and> serverInstance p = Some h \<and> getSequelize_ret env = Some c \<and>
    i = length (tasks p) \<and> p1 = gracefulShutdown env sig p \<and>
    p2 = step env (Settled i None) p1 \<and> p3 = step env (Settled i None) p2"
  then have p1: "p1 = set_task i AwaitServerClose
      (emit (ServerClose h) (opt_info (logger p) (ShutdownBegin sig) (p\<lparr>tasks := tasks p @ [Done]\<rparr>)))"
    by (simp add: gracefulShutdown_def Let_def prim_defs split: option.splits)
  from a p1 have f1: "exited p1 = None" "tasks p1 = tasks p @ [AwaitServerClose]"
    "logger p1 = logger p"
    by (simp_all add: prim_defs split: option.splits)
  from a f1 have p2: "p2 = set_task i AwaitSequelizeClose
      (emit (SequelizeClose c) (emit GetSequelize (opt_info (logger p) HttpClosed (set_task i Done p1))))"
    by (simp add: step_def shutdown_defs Let_def prim_defs split: option.splits)
  from a f1 p2 have f2: "exited p2 = None" "tasks p2 = tasks p @ [AwaitSequelizeClose]"
    "logger p2 = logger p"
    by (simp_all add: prim_defs split: option.splits)
  from a f2 have p3: "p3 = process_exit 0 (opt_info (logger p) ShutdownDone
      (opt_info (logger p) DbClosed (set_task i Done p2)))"
    by (simp add: step_def shutdown_defs Let_def prim_defs split: option.splits)
  from p1 show "releases (trace p1) = releases (trace p) @ [ServerClose h]"
    by (simp add: prim_defs releases_def split: option.splits)
  from f1 show "exited p1 = None" by simp
  from a f1 show "tasks p1 ! i = AwaitServerClose" by simp
  from p1 p2 show "releases (trace p2) = releases (trace p) @ [ServerClose h, SequelizeClose c]"
    by (simp add: prim_defs releases_def split: option.splits)
  from f2 show "exited p2 = None" by simp
  from a f2 show "tasks p2 ! i = AwaitSequelizeClose" by simp
  from p3 show "releases (trace p3) = releases (trace p2)"
    by (simp add: prim_defs releases_def split: option.splits)
  from p3 show "exited p3 = Some 0"
    by (simp add: prim_defs)
next
  assume b: "q = run env evs (boot env) \<and>
    length (filter is_SequelizeClose (trace q)) <
      length (filter is_SequelizeClose (trace (step env ev q)))"
  from b have q: "q = run env evs (boot env)"
    by (rule conjunct1)
  from b have more: "length (filter is_SequelizeClose (trace q)) <
      length (filter is_SequelizeClose (trace (step env ev q)))"
    by (rule conjunct2)
  from q have "phase q" by (simp add: phase_boot_run)
  then consider "starting q" | lg where "started lg q" | "stopped_early q"
    by (auto simp: phase_def)
  then show "\<exists>j. ev = Settled j None \<and> j < length (tasks q) \<and> tasks q ! j = AwaitServerClose"
  proof cases
    case 1
    from more show ?thesis by (simp add: starting_closes [OF 1])
  next
    case 2
    from started_closes [OF 2 more] show ?thesis .
  next
    case 3
    then have "exited q \<noteq> None" by (simp add: stopped_early_def)
    then have "step env ev q = q" by (rule exited_step)
    with more show ?thesis by simp
  qed
qed

text \<open>SIGINT on the running service, then the two callbacks in turn.\<close>

theorem C9_release_order_witness:
  "exited (run sample_env startup_ok (boot sample_env)) = None \<and>
   serverInstance (run sample_env startup_ok (boot sample_env)) = Some 0 \<and>
   getSequelize_ret sample_env = Some 9 \<and>
   length (tasks (run sample_env startup_ok (boot sample_env))) = 1 \<and>
   releases (trace (gracefulShutdown sample_env ''SIGINT''
     (run sample_env startup_ok (boot sample_env)))) = [ServerClose 0] \<and>
   releases (trace (step sample_env (Settled 1 None) (gracefulShutdown sample_env ''SIGINT''
     (run sample_env startup_ok (boot sample_env))))) = [ServerClose 0, SequelizeClose 9] \<and>
   exited (step sample_env (Settled 1 None) (step sample_env (Settled 1 None)
     (gracefulShutdown sample_env ''SIGINT'' (run sample_env startup_ok (boot sample_env))))) = Some 0 \<and>
   length (filter is_SequelizeClose (trace (run sample_env (startup_ok @ [Signal SIGINT]) (boot sample_env))))
     < length (filter is_SequelizeClose (trace (step sample_env (Settled 1 None)
         (run sample_env (startup_ok @ [Signal SIGINT]) (boot sample_env))))) \<and>
   tasks (run sample_env (startup_ok @ [Signal SIGINT]) (boot sample_env)) ! 1 = AwaitServerClose"
proof -
  have a: "exited (run sample_env startup_ok (boot sample_env)) = None \<and>
    serverInstance (run sample_env startup_ok (boot sample_env)) = Some 0 \<and>
    getSequelize_ret sample_env = Some 9 \<and>
    length (tasks (run sample_env startup_ok (boot sample_env))) = 1"
    by code_simp
  have a': "releases (trace (run sample_env startup_ok (boot sample_env))) = []"
    by code_simp
  have b: "length (filter is_SequelizeClose
        (trace (run sample_env (startup_ok @ [Signal SIGINT]) (boot sample_env))))
     < length (filter is_SequelizeClose (trace (step sample_env (Settled 1 None)
         (run sample_env (startup_ok @ [Signal SIGINT]) (boot sample_env)))))"
    by code_simp
  from C9_release_order [THEN conjunct1, rule_format,
      of "run sample_env startup_ok (boot sample_env)" 0 sample_env 9 1 _ "''SIGINT''"] a a'
  have 1: "releases (trace (gracefulShutdown sample_env ''SIGINT''
       (run sample_env startup_ok (boot sample_env)))) = [ServerClose 0] \<and>
     releases (trace (step sample_env (Settled 1 None) (gracefulShutdown sample_env ''SIGINT''
       (run sample_env startup_ok (boot sample_env))))) = [ServerClose 0, SequelizeClose 9] \<and>
     exited (step sample_env (Settled 1 None) (step sample_env (Settled 1 None)
       (gracefulShutdown sample_env ''SIGINT'' (run sample_env startup_ok (boot sample_env))))) = Some 0"
    by simp
  from C9_release_order [THEN conjunct2, rule_format,
      of "run sample_env (startup_ok @ [Signal SIGINT]) (boot sample_env)" sample_env
         "startup_ok @ [Signal SIGINT]" "Settled 1 None"] b
  have 2: "tasks (run sample_env (startup_ok @ [Signal SIGINT]) (boot sample_env)) ! 1 = AwaitServerClose"
    by simp
  from a b 1 2 show ?thesis by blast
qed

section \<open>Several triggers\<close>

text \<open>
  Claim C2 says that a second signal during shutdown is ignored. In the first run below
  the service is up and SIGINT arrives: \<open>gracefulShutdown\<close> calls \<open>close\<close> on the server
  and waits. SIGTERM arrives before the callback: \<open>close\<close> is called on the server a
  second time, by a second execution of the sequence.
  In the second run the callback of the first \<open>close\<close> has run and the connection is
  being closed when SIGTERM arrives: \<open>close\<close> is called on the server that is closed
  already, its callback receives an error, and the second execution ends the process
  with code 1 while the first still waits for the connection.
\<close>

theorem C2_counterexample:
  "exited (run sample_env (startup_ok @ [Signal SIGINT]) (boot sample_env)) = None \<and>
   tasks (run sample_env (startup_ok @ [Signal SIGINT]) (boot sample_env)) = [Done, AwaitServerClose] \<and>
   step sample_env (Signal SIGTERM) (run sample_env (startup_ok @ [Signal SIGINT]) (boot sample_env))
     \<noteq> run sample_env (startup_ok @ [Signal SIGINT]) (boot sample_env) \<and>
   releases (trace (run sample_env (startup_ok @ [Signal SIGINT, Signal SIGTERM]) (boot sample_env)))
     = [ServerClose 0, ServerClose 0] \<and>
   tasks (run sample_env (startup_ok @ [Signal SIGINT, Settled 1 None]) (boot sample_env))
     = [Done, AwaitSequelizeClose] \<and>
   releases (trace (run sample_env
       (startup_ok @ [Signal SIGINT, Settled 1 None, Signal SIGTERM, Settled 2 (Some not_running)])
       (boot sample_env)))
     = [ServerClose 0, SequelizeClose 9, ServerClose 0] \<and>
   exited (run sample_env
       (startup_ok @ [Signal SIGINT, Settled 1 None, Signal SIGTERM, Settled 2 (Some not_running)])
       (boot sample_env))
     = Some 1"
  by code_simp

lemma Signal_once:
  assumes "exited p = None" and "serverInstance p = Some h"
    and "sigHandlers p = [SIGINT, SIGTERM, SIGQUIT]"
  shows "step env (Signal s) p =
     set_task (length (tasks p)) AwaitServerClose
       (emit (ServerClose h)
         (opt_info (logger p) (ShutdownBegin (signal_name s)) (p\<lparr>tasks := tasks p @ [Done]\<rparr>)))"
  using assms
  by (cases s) (simp_all add: step_def gracefulShutdown_def Let_def prim_defs split: option.splits)

lemma Signal_once_fields:
  assumes "exited p = None" and "serverInstance p = Some h"
    and "sigHandlers p = [SIGINT, SIGTERM, SIGQUIT]"
  shows "exited (step env (Signal s) p) = None"
    and "serverInstance (step env (Signal s) p) = Some h"
    and "sigHandlers (step env (Signal s) p) = [SIGINT, SIGTERM, SIGQUIT]"
    and "tasks (step env (Signal s) p) = tasks p @ [AwaitServerClose]"
    and "releases (trace (step env (Signal s) p)) = releases (trace p) @ [ServerClose h]"
  using assms
  by (simp_all add: Signal_once [OF assms] prim_defs releases_def split: option.splits)

lemma Signals_many:
  "exited p = None \<Longrightarrow> serverInstance p = Some h \<Longrightarrow>
   sigHandlers p = [SIGINT, SIGTERM, SIGQUIT] \<Longrightarrow>
   releases (trace (run env (map Signal sigs) p)) =
     releases (trace p) @ replicate (length sigs) (ServerClose h) \<and>
   tasks (run env (map Signal sigs) p) = tasks p @ replicate (length sigs) AwaitServerClose \<and>
   exited (run env (map Signal sigs) p) = None"
proof (induction sigs arbitrary: p)
  case Nil
  then show ?case by (simp add: run_Nil)
next
  case (Cons s sigs)
  note f = Signal_once_fields [OF Cons.prems, of env s]
  from Cons.IH [OF f(1) f(2) f(3)] f(4) f(5) show ?case
    by (simp add: run_Cons replicate_app_Cons_same)
qed

lemma live_signal_cases:
  assumes "phase q" and "exited q = None"
  shows "(serverInstance q = Some 0 \<and> sigHandlers q = [SIGINT, SIGTERM, SIGQUIT]) \<or>
     (serverInstance q = None \<and> sigHandlers q = [] \<and>
      trace (step env (Signal s) q) = trace q @ [Killed s] \<and>
      exited (step env (Signal s) q) = Some (signal_status s))"
proof -
  from assms(1) consider "starting q" | lg where "started lg q" | "stopped_early q"
    by (auto simp: phase_def)
  then show ?thesis
  proof cases
    case 1
    then have "serverInstance q = None" "sigHandlers q = []"
      by (simp_all add: starting_def)
    then show ?thesis
      by (simp add: starting_default [OF 1] default_signal_def emit_def)
  next
    case 2
    then show ?thesis by (simp add: started_def)
  next
    case 3
    with assms(2) show ?thesis by (simp add: stopped_early_def)
  qed
qed

text \<open>
  Claim C2, as the code has it. \<open>gracefulShutdown\<close> has no guard and the program keeps no
  state. From the end of a successful start sequence, when the server instance exists and
  the signal handlers are registered, until the process ends, every signal starts an
  execution of the shutdown sequence of its own: after \<open>n\<close> signals with no callback in
  between, \<open>close\<close> has been called on the server \<open>n\<close> times and \<open>n\<close> executions wait
  for their callbacks. These are the only live states the program reaches in which a
  signal runs its code: before the handlers are registered a signal starts no shutdown
  and the runtime ends the process, and once the process has ended a signal has no effect.
\<close>

theorem C2_one_shutdown_per_signal:
  "(exited p = None \<and> serverInstance p = Some h \<and> sigHandlers p = [SIGINT, SIGTERM, SIGQUIT] \<longrightarrow>
      releases (trace (run env (map Signal sigs) p)) =
        releases (trace p) @ replicate (length sigs) (ServerClose h) \<and>
      tasks (run env (map Signal sigs) p) = tasks p @ replicate (length sigs) AwaitServerClose \<and>
      exited (run env (map Signal sigs) p) = None) \<and>
   (exited p \<noteq> None \<longrightarrow> run env (map Signal sigs) p = p) \<and>
   (q = run env evs (boot env) \<and> exited q = None \<longrightarrow>
      (serverInstance q = Some 0 \<and> sigHandlers q = [SIGINT, SIGTERM, SIGQUIT]) \<or>
      (serverInstance q = None \<and> sigHandlers q = [] \<and>
       trace (step env (Signal s) q) = trace q @ [Killed s] \<and>
       exited (step env (Signal s) q) = Some (signal_status s)))"
proof -
  have 3: "(serverInstance q = Some 0 \<and> sigHandlers q = [SIGINT, SIGTERM, SIGQUIT]) \<or>
      (serverInstance q = None \<and> sigHandlers q = [] \<and>
       trace (step env (Signal s) q) = trace q @ [Killed s] \<and>
       exited (step env (Signal s) q) = Some (signal_status s))"
    if "q = run env evs (boot env)" "exited q = None"
    using that live_signal_cases [of q env s] by (simp add: phase_boot_run)
  have c: "q = run env evs (boot env) \<and> exited q = None \<longrightarrow>
      (serverInstance q = Some 0 \<and> sigHandlers q = [SIGINT, SIGTERM, SIGQUIT]) \<or>
      (serverInstance q = None \<and> sigHandlers q = [] \<and>
       trace (step env (Signal s) q) = trace q @ [Killed s] \<and>
       exited (step env (Signal s) q) = Some (signal_status s))"
  proof
    assume h: "q = run env evs (boot env) \<and> exited q = None"
    from h have h1: "q = run env evs (boot env)" by (rule conjunct1)
    from h have h2: "exited q = None" by (rule conjunct2)
    from h1 h2 show "(serverInstance q = Some 0 \<and> sigHandlers q = [SIGINT, SIGTERM, SIGQUIT]) \<or>
      (serverInstance q = None \<and> sigHandlers q = [] \<and>
       trace (step env (Signal s) q) = trace q @ [Killed s] \<and>
       exited (step env (Signal s) q) = Some (signal_status s))"
      by (rule 3)
  qed
  have a: "exited p = None \<and> serverInstance p = Some h \<and>
      sigHandlers p = [SIGINT, SIGTERM, SIGQUIT] \<longrightarrow>
      releases (trace (run env (map Signal sigs) p)) =
        releases (trace p) @ replicate (length sigs) (ServerClose h) \<and>
      tasks (run env (map Signal sigs) p) = tasks p @ replicate (length sigs) AwaitServerClose \<and>
      exited (run env (map Signal sigs) p) = None"
    using Signals_many [of p h env sigs] by blast
  have b: "exited p \<noteq> None \<longrightarrow> run env (map Signal sigs) p = p"
    using exited_run [of p env "map Signal sigs"] by blast
  show ?thesis
    by (intro conjI) (rule a, rule b, rule c)
qed

text \<open>
  Three signals in a row on the running service, one after the process has exited, and
  one while \<open>initDB()\<close> is pending.
\<close>

theorem C2_one_shutdown_per_signal_witness:
  "exited (run sample_env startup_ok (boot sample_env)) = None \<and>
   serverInstance (run sample_env startup_ok (boot sample_env)) = Some 0 \<and>
   sigHandlers (run sample_env startup_ok (boot sample_env)) = [SIGINT, SIGTERM, SIGQUIT] \<and>
   releases (trace (run sample_env (map Signal [SIGINT, SIGINT, SIGQUIT])
     (run sample_env startup_ok (boot sample_env)))) = [ServerClose 0, ServerClose 0, ServerClose 0] \<and>
   exited (run sample_env (startup_ok @ [ServerError 0 sample_error]) (boot sample_env)) \<noteq> None \<and>
   run sample_env (map Signal [SIGTERM])
     (run sample_env (startup_ok @ [ServerError 0 sample_error]) (boot sample_env)) =
     run sample_env (startup_ok @ [ServerError 0 sample_error]) (boot sample_env) \<and>
   exited (run sample_env [Settled 0 None] (boot sample_env)) = None \<and>
   serverInstance (run sample_env [Settled 0 None] (boot sample_env)) = None \<and>
   exited (step sample_env (Signal SIGINT) (run sample_env [Settled 0 None] (boot sample_env))) =
     Some 130"
proof -
  have a: "exited (run sample_env startup_ok (boot sample_env)) = None \<and>
    serverInstance (run sample_env startup_ok (boot sample_env)) = Some 0 \<and>
    sigHandlers (run sample_env startup_ok (boot sample_env)) = [SIGINT, SIGTERM, SIGQUIT]"
    by code_simp
  have a': "releases (trace (run sample_env startup_ok (boot sample_env))) = []"
    by code_simp
  have b: "exited (run sample_env (startup_ok @ [ServerError 0 sample_error]) (boot sample_env)) \<noteq> None"
    by code_simp
  have c: "exited (run sample_env [Settled 0 None] (boot sample_env)) = None \<and>
    serverInstance (run sample_env [Settled 0 None] (boot sample_env)) = None"
    by code_simp
  from C2_one_shutdown_per_signal
    [of "run sample_env startup_ok (boot sample_env)" 0 sample_env "[SIGINT, SIGINT, SIGQUIT]"] a a'
  have 1: "releases (trace (run sample_env (map Signal [SIGINT, SIGINT, SIGQUIT])
     (run sample_env startup_ok (boot sample_env)))) = [ServerClose 0, ServerClose 0, ServerClose 0]"
    by (simp add: numeral_3_eq_3)
  from C2_one_shutdown_per_signal
    [of "run sample_env (startup_ok @ [ServerError 0 sample_error]) (boot sample_env)" _ sample_env
      "[SIGTERM]"] b
  have 2: "run sample_env (map Signal [SIGTERM])
     (run sample_env (startup_ok @ [ServerError 0 sample_error]) (boot sample_env)) =
     run sample_env (startup_ok @ [ServerError 0 sample_error]) (boot sample_env)"
    by blast
  from C2_one_shutdown_per_signal
    [of _ _ sample_env _ "run sample_env [Settled 0 None] (boot sample_env)" "[Settled 0 None]" SIGINT] c
  have 3: "exited (step sample_env (Signal SIGINT) (run sample_env [Settled 0 None] (boot sample_env))) =
     Some 130"
    by simp
  from a b c 1 2 3 show ?thesis by blast
qed

section \<open>Shutdown output\<close>

text \<open>
  Claim C6 says that a shutdown logs its completion, or its error, before it exits.
  Two runs of the running service after SIGINT: both callbacks without error, and the
  close of the connection rejecting. The exit codes are 0 and 1, and from the moment the
  signal arrives nothing is written on any channel: the module-level \<open>logger\<close> is null,
  so lines 26, 37, 44, 47 and 50 write nothing.
\<close>

theorem C6_shutdown_writes_nothing:
  "logger (run sample_env startup_ok (boot sample_env)) = None \<and>
   trace (run sample_env (startup_ok @ [Signal SIGINT, Settled 1 None, Settled 1 None])
       (boot sample_env)) =
     trace (run sample_env startup_ok (boot sample_env)) @
       [ServerClose 0, GetSequelize, SequelizeClose 9, Exit 0] \<and>
   trace (run sample_env (startup_ok @ [Signal SIGINT, Settled 1 None, Settled 1 (Some sample_error)])
       (boot sample_env)) =
     trace (run sample_env startup_ok (boot sample_env)) @
       [ServerClose 0, GetSequelize, SequelizeClose 9, Exit 1] \<and>
   trace (run sample_env (startup_ok @ [Signal SIGINT, Settled 1 (Some sample_error)])
       (boot sample_env)) =
     trace (run sample_env startup_ok (boot sample_env)) @ [ServerClose 0, Exit 1]"
  by code_simp

section \<open>A second start\<close>


section \<open>The module-level logger\<close>

lemma quiet_gracefulShutdown: "quiet p \<Longrightarrow> quiet (gracefulShutdown env sig p)"
  by (simp add: quiet_def shutdown_defs prim_defs Let_def split: option.splits)

lemma quiet_on_uncaughtException: "quiet p \<Longrightarrow> quiet (on_uncaughtException env e lg p)"
  by (simp add: quiet_def on_uncaughtException_def shutdown_defs prim_defs Let_def
        split: option.splits)

lemma quiet_on_unhandledRejection: "quiet p \<Longrightarrow> quiet (on_unhandledRejection env r lg p)"
  by (simp add: quiet_def on_unhandledRejection_def shutdown_defs prim_defs Let_def
        split: option.splits)

lemma quiet_fold: "(\<And>x q. quiet q \<Longrightarrow> quiet (f x q)) \<Longrightarrow> quiet p \<Longrightarrow> quiet (fold f xs p)"
  by (induction xs arbitrary: p) simp_all

lemma quiet_set_task: "quiet (set_task i t p) = quiet p"
  by (simp add: quiet_def set_task_def)

lemma quiet_settle: "quiet (settle t p) = quiet p"
  by (simp add: quiet_def)

lemma quiet_default: "quiet p \<Longrightarrow> quiet (default_signal s p) \<and> quiet (default_fault p)"
  by (simp add: quiet_def default_signal_def default_fault_def emit_def)

lemma quiet_resume: "quiet p \<Longrightarrow> quiet (resume env i r t p)"
  by (cases t)
     (simp_all add: quiet_def start_defs shutdown_defs prim_defs Let_def split: option.splits)

lemma quiet_dispatch: "quiet p \<Longrightarrow> quiet (dispatch env ev p)"
proof (cases ev)
  case (Settled i r)
  assume "quiet p"
  then show ?thesis using Settled by (simp add: quiet_resume quiet_set_task quiet_settle)
next
  case (Listening h)
  assume "quiet p"
  then show ?thesis using Listening by (simp add: quiet_def on_listening_def prim_defs)
next
  case (ServerError h e)
  assume "quiet p"
  then show ?thesis using ServerError by (simp add: quiet_def on_server_error_def prim_defs Let_def)
next
  case (Signal s)
  assume "quiet p"
  then show ?thesis using Signal by (simp add: quiet_fold quiet_gracefulShutdown quiet_default)
next
  case (UncaughtException e)
  assume "quiet p"
  then show ?thesis using UncaughtException
    by (simp add: quiet_fold quiet_on_uncaughtException quiet_default)
next
  case (UnhandledRejection r)
  assume "quiet p"
  then show ?thesis using UnhandledRejection
    by (simp add: quiet_fold quiet_on_unhandledRejection quiet_default)
qed

lemma quiet_step: "quiet p \<Longrightarrow> quiet (step env ev p)"
  by (simp add: step_def quiet_dispatch)

lemma quiet_run: "quiet p \<Longrightarrow> quiet (run env evs p)"
  by (induction evs arbitrary: p) (simp_all add: run_Nil run_Cons quiet_step)

lemma quiet_boot: "quiet (boot env)"
  by (simp add: quiet_def boot_def startServer_def init_proc_def prim_defs)

text \<open>
  Claim C10 says that the log calls of the fault handlers write nothing. In the run below
  the service is up and the module-level \<open>logger\<close> is null; an uncaught exception, and in
  a second run an unhandled rejection, is written to the logger object 7 that
  \<open>getLogger()\<close> returned: the handlers of lines 100-111 are inside the block of line 64
  and use its local constant.
\<close>

theorem C10_counterexample:
  "logger (run sample_env startup_ok (boot sample_env)) = None \<and>
   trace (run sample_env (startup_ok @ [UncaughtException sample_error]) (boot sample_env)) =
     trace (run sample_env startup_ok (boot sample_env)) @
       [SinkError 7 (UncaughtFault sample_error), ServerClose 0] \<and>
   trace (run sample_env (startup_ok @ [UnhandledRejection (ReasonError sample_error)])
       (boot sample_env)) =
     trace (run sample_env startup_ok (boot sample_env)) @
       [SinkError 7 (UnobservedRejection (ReasonError sample_error)), ServerClose 0]"
  by code_simp

text \<open>
  Claim C10, as the code has it. In every state the program reaches: the module-level
  \<open>logger\<close> is null, and the trace has no line of \<open>gracefulShutdown\<close> and no start
  failure on a logger object; a start failure after the logger was initialized goes to
  the console, followed by \<open>process.exit(1)\<close>. The fault handlers are the exception: their
  log call writes the fault to the logger object they captured, and then the shutdown
  sequence begins.
\<close>

theorem C10_module_logger_stays_null:
  "p = run env evs (boot env) \<Longrightarrow>
   logger p = None \<and> \<not> list_ex module_logger_line (trace p) \<and>
   (exited p = None \<and> i < length (tasks p) \<and>
    (tasks p ! i = AwaitInitDB lg \<or> tasks p ! i = AwaitInitMail lg) \<longrightarrow>
      trace (step env (Settled i (Some e)) p) = trace p @ [ConsoleError (StartFailed e), Exit 1]) \<and>
   (exited p = None \<and> uncaughtHandlers p = [lg] \<longrightarrow>
      trace (step env (UncaughtException e) p) =
        trace p @ [SinkError lg (UncaughtFault e), ServerClose 0]) \<and>
   (exited p = None \<and> rejectionHandlers p = [lg] \<longrightarrow>
      trace (step env (UnhandledRejection r) p) =
        trace p @ [SinkError lg (UnobservedRejection r), ServerClose 0])"
proof -
  assume p: "p = run env evs (boot env)"
  then have "quiet p" by (simp add: quiet_run quiet_boot)
  then have 1: "logger p = None \<and> \<not> list_ex module_logger_line (trace p)"
    by (simp add: quiet_def)
  from p have "phase p" by (simp add: phase_boot_run)
  then consider "starting p" | lg' where "started lg' p" | "stopped_early p"
    by (auto simp: phase_def)
  then have 2: "(exited p = None \<and> i < length (tasks p) \<and>
    (tasks p ! i = AwaitInitDB lg \<or> tasks p ! i = AwaitInitMail lg) \<longrightarrow>
      trace (step env (Settled i (Some e)) p) = trace p @ [ConsoleError (StartFailed e), Exit 1]) \<and>
   (exited p = None \<and> uncaughtHandlers p = [lg] \<longrightarrow>
      trace (step env (UncaughtException e) p) =
        trace p @ [SinkError lg (UncaughtFault e), ServerClose 0]) \<and>
   (exited p = None \<and> rejectionHandlers p = [lg] \<longrightarrow>
      trace (step env (UnhandledRejection r) p) =
        trace p @ [SinkError lg (UnobservedRejection r), ServerClose 0])"
  proof cases
    case 1
    then have "uncaughtHandlers p = []" "rejectionHandlers p = []"
      by (simp_all add: starting_def)
    then show ?thesis using starting_failure(1) [OF 1, of i env e] by simp
  next
    case 2
    have "awaited (tasks p ! i) = None" if "i < length (tasks p)"
      using that by (rule started_not_awaited [OF 2])
    moreover from 2 have "uncaughtHandlers p = [lg']" "rejectionHandlers p = [lg']"
      by (simp_all add: started_def)
    ultimately show ?thesis
      using started_Uncaught [OF 2, of env e] started_Rejection [OF 2, of env r] by auto
  next
    case 3
    then show ?thesis by (auto simp: stopped_early_def)
  qed
  from 1 2 show ?thesis by blast
qed

text \<open>
  A rejection of \<open>initDB()\<close> after the logger was initialized, and an uncaught exception
  on the running service.
\<close>

theorem C10_module_logger_stays_null_witness:
  "exited (run sample_env [Settled 0 None] (boot sample_env)) = None \<and>
   0 < length (tasks (run sample_env [Settled 0 None] (boot sample_env))) \<and>
   tasks (run sample_env [Settled 0 None] (boot sample_env)) ! 0 = AwaitInitDB 7 \<and>
   trace (step sample_env (Settled 0 (Some sample_error))
       (run sample_env [Settled 0 None] (boot sample_env))) =
     trace (run sample_env [Settled 0 None] (boot sample_env)) @
       [ConsoleError (StartFailed sample_error), Exit 1] \<and>
   exited (run sample_env startup_ok (boot sample_env)) = None \<and>
   uncaughtHandlers (run sample_env startup_ok (boot sample_env)) = [7] \<and>
   rejectionHandlers (run sample_env startup_ok (boot sample_env)) = [7] \<and>
   logger (run sample_env startup_ok (boot sample_env)) = None \<and>
   trace (step sample_env (UncaughtException sample_error)
       (run sample_env startup_ok (boot sample_env))) =
     trace (run sample_env startup_ok (boot sample_env)) @
       [SinkError 7 (UncaughtFault sample_error), ServerClose 0]"
proof -
  have a: "exited (run sample_env [Settled 0 None] (boot sample_env)) = None \<and>
    0 < length (tasks (run sample_env [Settled 0 None] (boot sample_env))) \<and>
    tasks (run sample_env [Settled 0 None] (boot sample_env)) ! 0 = AwaitInitDB 7"
    by code_simp
  have b: "exited (run sample_env startup_ok (boot sample_env)) = None \<and>
    uncaughtHandlers (run sample_env startup_ok (boot sample_env)) = [7] \<and>
    rejectionHandlers (run sample_env startup_ok (boot sample_env)) = [7]"
    by code_simp
  from C10_module_logger_stays_null
    [OF refl, of sample_env "[Settled 0 None]" 0 7 sample_error] a
  have 1: "trace (step sample_env (Settled 0 (Some sample_error))
       (run sample_env [Settled 0 None] (boot sample_env))) =
     trace (run sample_env [Settled 0 None] (boot sample_env)) @
       [ConsoleError (StartFailed sample_error), Exit 1]"
    by blast
  from C10_module_logger_stays_null
    [OF refl, of sample_env startup_ok _ 7 sample_error] b
  have 2: "logger (run sample_env startup_ok (boot sample_env)) = None \<and>
    trace (step sample_env (UncaughtException sample_error)
       (run sample_env startup_ok (boot sample_env))) =
     trace (run sample_env startup_ok (boot sample_env)) @
       [SinkError 7 (UncaughtFault sample_error), ServerClose 0]"
    by blast
  from a b 1 2 show ?thesis by blast
qed

end
